theory Spec2Isabelle
  imports Complex_Main
begin

section \<open>The JavaScript values of the data model\<close>

text \<open>
  The engine works on plain structured data: rules, settings and the reference are
  nested objects, arrays and scalars. A finite number is a rational; the finite
  numbers of the language are the binary64 values, those that \<open>round_double\<close> below
  leaves as they are, and every number that the model reads from a string is one.
  Zero has no sign: no operation of the engine tells \<open>-0\<close> from \<open>0\<close>. A string is
  a list of code units, of which the character type holds those below 256. An
  object is the list of its own properties, each key once, none of them named as a
  conversion method (\<open>toString\<close>, \<open>valueOf\<close>). Two composite values (arrays, objects)
  are never the same object, as for rule sets and references that come from separate
  documents, so identity comparisons between composite values are false. Members
  inherited from the built-in prototypes (methods such as \<open>toString\<close>) are not part
  of the data.
\<close>

datatype jsnum = NaN | PosInf | NegInf | Fin rat

datatype jsval =
    Undefined
  | Null
  | JBool bool
  | JNum jsnum
  | JStr string
  | JArr "jsval list"
  | JObj "(string \<times> jsval) list"

text \<open>An exception: \<open>new Error(message)\<close> with its optional \<open>rule\<close> property, or a
  \<open>TypeError\<close> raised by the runtime; the text of a runtime error depends on the
  engine and only names the failing operation here.\<close>

datatype js_error =
    JsError string "jsval option"
  | JsTypeError string

subsection \<open>Characters and decimal numerals\<close>

definition newline :: char where
  "newline = CHR 0x0A"

definition backslash :: char where
  "backslash = CHR 0x5C"

definition is_digit :: "char \<Rightarrow> bool" where
  "is_digit c = (c \<in> set ''0123456789'')"

definition is_word_char :: "char \<Rightarrow> bool" where
  "is_word_char c =
     (c \<in> set ''abcdefghijklmnopqrstuvwxyzABCDEFGHIJKLMNOPQRSTUVWXYZ0123456789_'')"

definition is_whitespace :: "char \<Rightarrow> bool" where
  "is_whitespace c =
     (c \<in> set [CHR 0x20, CHR 0x09, CHR 0x0A, CHR 0x0B, CHR 0x0C, CHR 0x0D, CHR 0xA0])"

definition is_line_terminator :: "char \<Rightarrow> bool" where
  "is_line_terminator c = (c = CHR 0x0A \<or> c = CHR 0x0D)"

definition digit_char :: "nat \<Rightarrow> char" where
  "digit_char n = ''0123456789'' ! n"

fun string_of_nat :: "nat \<Rightarrow> string" where
  "string_of_nat n =
     (if n < 10 then [digit_char n]
      else string_of_nat (n div 10) @ [digit_char (n mod 10)])"

declare string_of_nat.simps [simp del]

definition digit_val :: "char \<Rightarrow> nat" where
  "digit_val c = of_char c - 48"

definition nat_of_digits :: "string \<Rightarrow> nat" where
  "nat_of_digits s = foldl (\<lambda>n c. 10 * n + digit_val c) 0 s"

definition is_digits :: "string \<Rightarrow> bool" where
  "is_digits s = (s \<noteq> [] \<and> list_all is_digit s)"

definition trim :: "string \<Rightarrow> string" where
  "trim s = rev (dropWhile is_whitespace (rev (dropWhile is_whitespace s)))"

text \<open>Lower case of the letters below 256: \<open>A\<close> to \<open>Z\<close>, and the accented capitals
  from 0xC0 to 0xDE without the multiplication sign 0xD7.\<close>

definition toLowerCase :: "string \<Rightarrow> string" where
  "toLowerCase s =
     map (\<lambda>c. if (65 \<le> (of_char c :: nat) \<and> (of_char c :: nat) \<le> 90)
                  \<or> (192 \<le> (of_char c :: nat) \<and> (of_char c :: nat) \<le> 222
                      \<and> (of_char c :: nat) \<noteq> 215)
               then char_of (of_char c + (32::nat)) else c) s"

fun join :: "string \<Rightarrow> string list \<Rightarrow> string" where
  "join sep [] = []"
| "join sep [x] = x"
| "join sep (x # y # ys) = x @ sep @ join sep (y # ys)"

subsection \<open>Binary64 numbers\<close>

text \<open>The arithmetic that rounds a rational to the nearest number of the language.\<close>

function bit_length :: "int \<Rightarrow> int" where
  "bit_length n = (if n < 1 then 0 else 1 + bit_length (n div 2))"
  by pat_completeness auto
termination
  by (relation "measure nat") auto

declare bit_length.simps [simp del]

function dec_length :: "int \<Rightarrow> int" where
  "dec_length n = (if n < 1 then 0 else 1 + dec_length (n div 10))"
  by pat_completeness auto
termination
  by (relation "measure nat") auto

declare dec_length.simps [simp del]

text \<open>\<open>b\<close> to the power \<open>e\<close>, by squaring; 1 for a negative \<open>e\<close>.\<close>

function ipow :: "int \<Rightarrow> int \<Rightarrow> int" where
  "ipow b e =
     (if e < 1 then 1
      else (let h = ipow b (e div 2) in if e mod 2 = 0 then h * h else b * h * h))"
  by pat_completeness auto
termination
  by (relation "measure (\<lambda>(b, e). nat e)") auto

declare ipow.simps [simp del]

definition pow2 :: "int \<Rightarrow> rat" where
  "pow2 e = (if 0 \<le> e then of_int (ipow 2 e) else 1 / of_int (ipow 2 (- e)))"

definition pow10 :: "int \<Rightarrow> rat" where
  "pow10 e = (if 0 \<le> e then of_int (ipow 10 e) else 1 / of_int (ipow 10 (- e)))"

text \<open>For a positive \<open>q\<close>, the \<open>e\<close> with \<open>2 ^ e \<le> q < 2 ^ (e + 1)\<close>.\<close>

definition floor_log2 :: "rat \<Rightarrow> int" where
  "floor_log2 q =
     (case quotient_of q of (a, b) \<Rightarrow>
        (let e0 = bit_length a - bit_length b
         in if q < pow2 e0 then e0 - 1 else e0))"

text \<open>For a positive \<open>x\<close>, the \<open>n\<close> with \<open>10 ^ (n - 1) \<le> x < 10 ^ n\<close>.\<close>

definition decimal_exponent :: "rat \<Rightarrow> int" where
  "decimal_exponent x =
     (case quotient_of x of (a, b) \<Rightarrow>
        (let n0 = dec_length a - dec_length b
         in if x < pow10 n0 then n0 else n0 + 1))"

definition round_half_even :: "rat \<Rightarrow> int" where
  "round_half_even m =
     (let f = \<lfloor>m\<rfloor>; d = m - of_int f
      in if d < 1 / 2 then f else if 1 / 2 < d then f + 1 else if even f then f else f + 1)"

text \<open>The binary64 value nearest to a positive rational, ties to the even significand:
  53 bits of significand, the least exponent of the last place \<open>-1074\<close>, and infinity
  from \<open>2 ^ 1024\<close> on.\<close>

definition round_magnitude :: "rat \<Rightarrow> jsnum" where
  "round_magnitude q =
     (let e = floor_log2 q; u = max (e - 52) (- 1074);
          r = round_half_even (q / pow2 u)
      in if 1024 \<le> e \<or> (e = 1023 \<and> r = ipow 2 53) then PosInf
         else Fin (of_int r * pow2 u))"

fun negate :: "jsnum \<Rightarrow> jsnum" where
  "negate NaN = NaN"
| "negate PosInf = NegInf"
| "negate NegInf = PosInf"
| "negate (Fin q) = Fin (- q)"

definition round_double :: "rat \<Rightarrow> jsnum" where
  "round_double q =
     (if q = 0 then Fin 0
      else if 0 < q then round_magnitude q
      else negate (round_magnitude (- q)))"

subsection \<open>Reading a number\<close>

function decimal_digits :: "int \<Rightarrow> string" where
  "decimal_digits n =
     (if n < 10 then [''0123456789'' ! nat n]
      else decimal_digits (n div 10) @ [''0123456789'' ! nat (n mod 10)])"
  by pat_completeness auto
termination
  by (relation "measure nat") auto

declare decimal_digits.simps [simp del]

definition digit_value :: "char \<Rightarrow> int" where
  "digit_value c =
     (if c \<in> set ''0123456789'' then of_char c - 48
      else if c \<in> set ''abcdef'' then of_char c - 87
      else of_char c - 55)"

definition int_of_digits :: "int \<Rightarrow> string \<Rightarrow> int" where
  "int_of_digits radix s = foldl (\<lambda>n c. radix * n + digit_value c) 0 s"

text \<open>\<open>0x\<close>, \<open>0o\<close> and \<open>0b\<close> literals.\<close>

definition parse_radix :: "string \<Rightarrow> int option" where
  "parse_radix t =
     (case t of
        z # r # ds \<Rightarrow>
          if z \<noteq> CHR ''0'' \<or> ds = [] then None
          else if r \<in> set ''xX'' \<and> list_all (\<lambda>c. c \<in> set ''0123456789abcdefABCDEF'') ds
            then Some (int_of_digits 16 ds)
          else if r \<in> set ''oO'' \<and> list_all (\<lambda>c. c \<in> set ''01234567'') ds
            then Some (int_of_digits 8 ds)
          else if r \<in> set ''bB'' \<and> list_all (\<lambda>c. c \<in> set ''01'') ds
            then Some (int_of_digits 2 ds)
          else None
      | _ \<Rightarrow> None)"

text \<open>The text after the digits of a decimal literal: nothing, or an exponent part.\<close>

definition parse_exponent :: "string \<Rightarrow> int option" where
  "parse_exponent r =
     (case r of
        [] \<Rightarrow> Some 0
      | c # cs \<Rightarrow>
          if c \<notin> set ''eE'' then None
          else if is_digits cs then Some (int_of_digits 10 cs)
          else if cs \<noteq> [] \<and> hd cs = CHR ''+'' \<and> is_digits (tl cs)
            then Some (int_of_digits 10 (tl cs))
          else if cs \<noteq> [] \<and> hd cs = CHR ''-'' \<and> is_digits (tl cs)
            then Some (- int_of_digits 10 (tl cs))
          else None)"

text \<open>An unsigned decimal literal: \<open>Infinity\<close>, or digits with an optional fraction and
  an optional exponent, with a digit before or after the point.\<close>

definition parse_unsigned_decimal :: "string \<Rightarrow> jsnum option" where
  "parse_unsigned_decimal u =
     (if u = ''Infinity'' then Some PosInf
      else
        (let whole = takeWhile is_digit u;
             r1 = dropWhile is_digit u;
             has_point = (r1 \<noteq> [] \<and> hd r1 = CHR ''.'');
             fraction = (if has_point then takeWhile is_digit (tl r1) else []);
             r2 = (if has_point then dropWhile is_digit (tl r1) else r1)
         in if whole = [] \<and> fraction = [] then None
            else (case parse_exponent r2 of
                    None \<Rightarrow> None
                  | Some ex \<Rightarrow>
                      Some (round_double
                        (of_int (int_of_digits 10 (whole @ fraction))
                           * pow10 (ex - int (length fraction)))))))"

definition StringToNumber :: "string \<Rightarrow> jsnum" where
  "StringToNumber s =
     (let t = trim s in
      if t = [] then Fin 0
      else (case parse_radix t of
              Some n \<Rightarrow> round_double (of_int n)
            | None \<Rightarrow>
                (if hd t = CHR ''-'' then
                   (case parse_unsigned_decimal (tl t) of Some n \<Rightarrow> negate n | None \<Rightarrow> NaN)
                 else if hd t = CHR ''+'' then
                   (case parse_unsigned_decimal (tl t) of Some n \<Rightarrow> n | None \<Rightarrow> NaN)
                 else (case parse_unsigned_decimal t of Some n \<Rightarrow> n | None \<Rightarrow> NaN))))"

subsection \<open>Printing a number\<close>

text \<open>The digits \<open>s\<close> of the shortest decimal \<open>s * 10 ^ (n - k)\<close> that is read back as
  \<open>x\<close>, with \<open>k\<close> digits, starting the search at \<open>k\<close>; of the two candidates around
  \<open>x\<close> the nearer one, the even one when they are as near.\<close>

function shortest_digits :: "rat \<Rightarrow> int \<Rightarrow> int \<Rightarrow> int" where
  "shortest_digits x n k =
     (let unit = pow10 (n - k);
          lo = \<lfloor>x / unit\<rfloor>;
          hi = lo + 1;
          ok_lo = (round_double (of_int lo * unit) = Fin x);
          ok_hi = (round_double (of_int hi * unit) = Fin x)
      in if ok_lo \<and> ok_hi then
           (if x - of_int lo * unit < of_int hi * unit - x then lo
            else if of_int hi * unit - x < x - of_int lo * unit then hi
            else if even lo then lo else hi)
         else if ok_lo then lo
         else if ok_hi then hi
         else if 17 \<le> k then lo
         else shortest_digits x n (k + 1))"
  by pat_completeness auto
termination
  by (relation "measure (\<lambda>(x, n, k). nat (17 - k))") auto

declare shortest_digits.simps [simp del]

definition zeros :: "int \<Rightarrow> string" where
  "zeros n = replicate (nat n) (CHR ''0'')"

text \<open>The text of \<open>s * 10 ^ (n - k)\<close> for the \<open>k\<close> digits of \<open>s\<close>: plain digits, a
  decimal point, or the exponent form outside \<open>-6 < n \<le> 21\<close>.\<close>

definition format_decimal :: "string \<Rightarrow> int \<Rightarrow> string" where
  "format_decimal digits n =
     (let k = int (length digits) in
      if k \<le> n \<and> n \<le> 21 then digits @ zeros (n - k)
      else if 0 < n \<and> n \<le> 21 then take (nat n) digits @ ''.'' @ drop (nat n) digits
      else if - 6 < n \<and> n \<le> 0 then ''0.'' @ zeros (- n) @ digits
      else (if k = 1 then digits else take 1 digits @ ''.'' @ drop 1 digits)
           @ ''e'' @ (if n - 1 < 0 then ''-'' else ''+'') @ decimal_digits (abs (n - 1)))"

text \<open>A candidate that is a power of ten has the single digit 1.\<close>

definition print_positive :: "rat \<Rightarrow> string" where
  "print_positive x =
     (let n = decimal_exponent x;
          digits = decimal_digits (shortest_digits x n 1)
      in if digits = ''10'' then format_decimal ''1'' (n + 1)
         else format_decimal digits n)"

fun NumberToString :: "jsnum \<Rightarrow> string" where
  "NumberToString NaN = ''NaN''"
| "NumberToString PosInf = ''Infinity''"
| "NumberToString NegInf = ''-Infinity''"
| "NumberToString (Fin q) =
     (if q = 0 then ''0''
      else if q < 0 then CHR ''-'' # print_positive (- q)
      else print_positive q)"

subsection \<open>Type tests and conversions of the language\<close>

fun typeof :: "jsval \<Rightarrow> string" where
  "typeof Undefined = ''undefined''"
| "typeof Null = ''object''"
| "typeof (JBool b) = ''boolean''"
| "typeof (JNum n) = ''number''"
| "typeof (JStr s) = ''string''"
| "typeof (JArr xs) = ''object''"
| "typeof (JObj kvs) = ''object''"

text \<open>\<open>v == null\<close>: true of \<open>null\<close> and \<open>undefined\<close> only.\<close>

fun nullish :: "jsval \<Rightarrow> bool" where
  "nullish Undefined = True"
| "nullish Null = True"
| "nullish v = False"

fun Array_isArray :: "jsval \<Rightarrow> bool" where
  "Array_isArray (JArr xs) = True"
| "Array_isArray v = False"

fun truthy :: "jsval \<Rightarrow> bool" where
  "truthy Undefined = False"
| "truthy Null = False"
| "truthy (JBool b) = b"
| "truthy (JNum n) = (n \<noteq> NaN \<and> n \<noteq> Fin 0)"
| "truthy (JStr s) = (s \<noteq> [])"
| "truthy (JArr xs) = True"
| "truthy (JObj kvs) = True"

text \<open>The string of a value, as a template literal \<open>`${v}`\<close> produces it. An array
  prints its elements separated by commas, \<open>null\<close> and \<open>undefined\<close> elements as
  nothing.\<close>

fun ToString :: "jsval \<Rightarrow> string" where
  "ToString Undefined = ''undefined''"
| "ToString Null = ''null''"
| "ToString (JBool b) = (if b then ''true'' else ''false'')"
| "ToString (JNum n) = NumberToString n"
| "ToString (JStr s) = s"
| "ToString (JArr xs) = join '','' (map (\<lambda>x. if nullish x then [] else ToString x) xs)"
| "ToString (JObj kvs) = ''[object Object]''"

fun ToPrimitive :: "jsval \<Rightarrow> jsval" where
  "ToPrimitive (JArr xs) = JStr (ToString (JArr xs))"
| "ToPrimitive (JObj kvs) = JStr (ToString (JObj kvs))"
| "ToPrimitive v = v"

fun ToNumber :: "jsval \<Rightarrow> jsnum" where
  "ToNumber Undefined = NaN"
| "ToNumber Null = Fin 0"
| "ToNumber (JBool b) = Fin (if b then 1 else 0)"
| "ToNumber (JNum n) = n"
| "ToNumber (JStr s) = StringToNumber s"
| "ToNumber (JArr xs) = StringToNumber (ToString (JArr xs))"
| "ToNumber (JObj kvs) = StringToNumber (ToString (JObj kvs))"

subsection \<open>Equality and ordering of the language\<close>

fun num_eq :: "jsnum \<Rightarrow> jsnum \<Rightarrow> bool" where
  "num_eq NaN m = False"
| "num_eq n NaN = False"
| "num_eq n m = (n = m)"

text \<open>\<open>n < m\<close> on numbers; \<open>None\<close> is the undefined outcome when an operand is \<open>NaN\<close>.\<close>

fun num_lt :: "jsnum \<Rightarrow> jsnum \<Rightarrow> bool option" where
  "num_lt NaN m = None"
| "num_lt n NaN = None"
| "num_lt PosInf m = Some False"
| "num_lt n PosInf = Some True"
| "num_lt n NegInf = Some False"
| "num_lt NegInf m = Some True"
| "num_lt (Fin i) (Fin j) = Some (i < j)"

fun str_lt :: "string \<Rightarrow> string \<Rightarrow> bool" where
  "str_lt [] [] = False"
| "str_lt [] (d # ds) = True"
| "str_lt (c # cs) [] = False"
| "str_lt (c # cs) (d # ds) =
     (if c = d then str_lt cs ds else (of_char c :: nat) < of_char d)"

text \<open>\<open>x === y\<close>.\<close>

fun strict_eq :: "jsval \<Rightarrow> jsval \<Rightarrow> bool" where
  "strict_eq Undefined Undefined = True"
| "strict_eq Null Null = True"
| "strict_eq (JBool a) (JBool b) = (a = b)"
| "strict_eq (JNum n) (JNum m) = num_eq n m"
| "strict_eq (JStr s) (JStr t) = (s = t)"
| "strict_eq x y = False"

text \<open>The comparison of \<open>Array.prototype.includes\<close>: as \<open>===\<close>, but \<open>NaN\<close> is found.\<close>

fun SameValueZero :: "jsval \<Rightarrow> jsval \<Rightarrow> bool" where
  "SameValueZero (JNum NaN) (JNum NaN) = True"
| "SameValueZero x y = strict_eq x y"

text \<open>Booleans become numbers and composite values become their strings before the
  comparison of \<open>==\<close> between values of different types.\<close>

fun loose_operand :: "jsval \<Rightarrow> jsval" where
  "loose_operand (JBool b) = JNum (ToNumber (JBool b))"
| "loose_operand v = ToPrimitive v"

fun loose_prim_eq :: "jsval \<Rightarrow> jsval \<Rightarrow> bool" where
  "loose_prim_eq (JStr s) (JStr t) = (s = t)"
| "loose_prim_eq (JNum n) (JNum m) = num_eq n m"
| "loose_prim_eq (JNum n) (JStr t) = num_eq n (StringToNumber t)"
| "loose_prim_eq (JStr s) (JNum m) = num_eq (StringToNumber s) m"
| "loose_prim_eq x y = False"

text \<open>\<open>x == y\<close>.\<close>

definition loose_eq :: "jsval \<Rightarrow> jsval \<Rightarrow> bool" where
  "loose_eq x y =
     (if nullish x \<or> nullish y then nullish x \<and> nullish y
      else if typeof x = ''object'' \<and> typeof y = ''object'' then False
      else loose_prim_eq (loose_operand x) (loose_operand y))"

text \<open>\<open>x != y\<close> is the negation of \<open>x == y\<close>.\<close>

definition loose_ne :: "jsval \<Rightarrow> jsval \<Rightarrow> bool" where
  "loose_ne x y = (\<not> loose_eq x y)"

definition strict_ne :: "jsval \<Rightarrow> jsval \<Rightarrow> bool" where
  "strict_ne x y = (\<not> strict_eq x y)"

text \<open>The relational comparison \<open>x < y\<close> with its undefined outcome, and the four
  operators built on it.\<close>

definition js_compare :: "jsval \<Rightarrow> jsval \<Rightarrow> bool option" where
  "js_compare x y =
     (case (ToPrimitive x, ToPrimitive y) of
        (JStr s, JStr t) \<Rightarrow> Some (str_lt s t)
      | (px, py) \<Rightarrow> num_lt (ToNumber px) (ToNumber py))"

definition js_lt :: "jsval \<Rightarrow> jsval \<Rightarrow> bool" where
  "js_lt x y = (js_compare x y = Some True)"

definition js_gt :: "jsval \<Rightarrow> jsval \<Rightarrow> bool" where
  "js_gt x y = (js_compare y x = Some True)"

definition js_lte :: "jsval \<Rightarrow> jsval \<Rightarrow> bool" where
  "js_lte x y = (js_compare y x = Some False)"

definition js_gte :: "jsval \<Rightarrow> jsval \<Rightarrow> bool" where
  "js_gte x y = (js_compare x y = Some False)"

subsection \<open>Strings, arrays and property access\<close>

definition startsWith :: "string \<Rightarrow> string \<Rightarrow> bool" where
  "startsWith s t = (take (length t) s = t)"

definition endsWith :: "string \<Rightarrow> string \<Rightarrow> bool" where
  "endsWith s t = (length t \<le> length s \<and> drop (length s - length t) s = t)"

fun includes_str :: "string \<Rightarrow> string \<Rightarrow> bool" where
  "includes_str [] t = (t = [])"
| "includes_str (c # cs) t = (startsWith (c # cs) t \<or> includes_str cs t)"

definition includes_arr :: "jsval list \<Rightarrow> jsval \<Rightarrow> bool" where
  "includes_arr xs v = list_ex (\<lambda>x. SameValueZero x v) xs"

text \<open>\<open>xs.find(p)\<close>: the first element that satisfies \<open>p\<close>, else \<open>undefined\<close>.\<close>

fun find_arr :: "(jsval \<Rightarrow> bool) \<Rightarrow> jsval list \<Rightarrow> jsval" where
  "find_arr p [] = Undefined"
| "find_arr p (x # xs) = (if p x then x else find_arr p xs)"

text \<open>\<open>s.split("[]")\<close>.\<close>

fun split_marker :: "string \<Rightarrow> string list" where
  "split_marker [] = [[]]"
| "split_marker [c] = [[c]]"
| "split_marker (c # d # ds) =
     (if c = CHR ''['' \<and> d = CHR '']'' then [] # split_marker ds
      else (case split_marker (d # ds) of
              p # ps \<Rightarrow> (c # p) # ps
            | [] \<Rightarrow> [[c]]))"

text \<open>An array index is a decimal numeral without leading zero.\<close>

definition array_index :: "string \<Rightarrow> nat option" where
  "array_index k =
     (if is_digits k \<and> (k = ''0'' \<or> hd k \<noteq> CHR ''0'') then Some (nat_of_digits k) else None)"

text \<open>\<open>object[key]\<close> on a value that is neither \<open>null\<close> nor \<open>undefined\<close>: the own
  properties of an object, the elements and the length of an array or a string.\<close>

fun js_index :: "jsval \<Rightarrow> string \<Rightarrow> jsval" where
  "js_index (JObj kvs) k = (case map_of kvs k of Some v \<Rightarrow> v | None \<Rightarrow> Undefined)"
| "js_index (JArr xs) k =
     (case array_index k of
        Some i \<Rightarrow> (if i < length xs then xs ! i else Undefined)
      | None \<Rightarrow> (if k = ''length'' then JNum (Fin (of_nat (length xs))) else Undefined))"
| "js_index (JStr s) k =
     (case array_index k of
        Some i \<Rightarrow> (if i < length s then JStr [s ! i] else Undefined)
      | None \<Rightarrow> (if k = ''length'' then JNum (Fin (of_nat (length s))) else Undefined))"
| "js_index v k = Undefined"

text \<open>\<open>key in Object(object)\<close>.\<close>

fun js_in :: "string \<Rightarrow> jsval \<Rightarrow> bool" where
  "js_in k (JObj kvs) = (k \<in> set (map fst kvs))"
| "js_in k (JArr xs) =
     (case array_index k of Some i \<Rightarrow> i < length xs | None \<Rightarrow> k = ''length'')"
| "js_in k (JStr s) =
     (case array_index k of Some i \<Rightarrow> i < length s | None \<Rightarrow> k = ''length'')"
| "js_in k v = False"

section \<open>The path resolver\<close>

subsection \<open>The regular expressions\<close>

text \<open>\<open>reIsPlainProp = /^\w*$/\<close>.\<close>

definition reIsPlainProp_test :: "string \<Rightarrow> bool" where
  "reIsPlainProp_test s = list_all is_word_char s"

definition is_quote :: "char \<Rightarrow> bool" where
  "is_quote c = (c = CHR 0x22 \<or> c = CHR 0x27)"

text \<open>The rest of a quoted bracket, after the opening quote \<open>q\<close>:
  \<open>(?:(?!\1)[^\\]|\\.)*?\1\]\<close>. At the quote only the closing can match, at a
  backslash only the escape, elsewhere only the plain character, so the match is
  determined. The result is the text between the quotes and what follows the bracket.\<close>

fun quoted_rest :: "char \<Rightarrow> string \<Rightarrow> (string \<times> string) option" where
  "quoted_rest q [] = None"
| "quoted_rest q [c] = None"
| "quoted_rest q (c # d # ds) =
     (if c = q then (if d = CHR '']'' then Some ([], ds) else None)
      else if c = backslash then
        (if is_line_terminator d then None
         else (case quoted_rest q ds of
                 Some (body, rest) \<Rightarrow> Some (c # d # body, rest)
               | None \<Rightarrow> None))
      else (case quoted_rest q (d # ds) of
              Some (body, rest) \<Rightarrow> Some (c # body, rest)
            | None \<Rightarrow> None))"

text \<open>\<open>reIsDeepProp = /\.|\[(?:[^[\]]*|(["'])(?:(?!\1)[^\\]|\\.)*?\1)\]/\<close>:
  \<open>deep_bracket\<close> matches the bracket alternative on the text after an opening
  bracket, the test looks for a match at any position.\<close>

definition is_bracket :: "char \<Rightarrow> bool" where
  "is_bracket c = (c = CHR ''['' \<or> c = CHR '']'')"

definition deep_bracket :: "string \<Rightarrow> bool" where
  "deep_bracket s =
     ((case dropWhile (\<lambda>c. \<not> is_bracket c) s of
         c # cs \<Rightarrow> c = CHR '']''
       | [] \<Rightarrow> False)
      \<or> (case s of
            q # cs \<Rightarrow> is_quote q \<and> quoted_rest q cs \<noteq> None
          | [] \<Rightarrow> False))"

fun reIsDeepProp_test :: "string \<Rightarrow> bool" where
  "reIsDeepProp_test [] = False"
| "reIsDeepProp_test (c # cs) =
     (c = CHR ''.'' \<or> (c = CHR ''['' \<and> deep_bracket cs) \<or> reIsDeepProp_test cs)"

text \<open>\<open>reEscapeChar = /\\(\\)?/g\<close> replaced by \<open>$1\<close>: a backslash before a backslash
  leaves one backslash, any other backslash disappears.\<close>

fun unescape :: "string \<Rightarrow> string" where
  "unescape [] = []"
| "unescape [c] = (if c = backslash then [] else [c])"
| "unescape (c # d # ds) =
     (if c = backslash then
        (if d = backslash then backslash # unescape ds else unescape (d # ds))
      else c # unescape (d # ds))"

text \<open>The three alternatives of \<open>rePropName\<close>. A segment character is anything but a
  dot or a bracket.\<close>

definition is_separator :: "char \<Rightarrow> bool" where
  "is_separator c = (c = CHR ''.'' \<or> c = CHR ''['' \<or> c = CHR '']'')"

text \<open>The bracket alternative on a text that starts with \<open>[\<close>, as the key it pushes
  and the text after the match. Unquoted, \<open>\[([^"'][^[]*)\]\<close>: one character that is
  no quote, then the longest run without \<open>[\<close> that still ends before a \<open>]\<close>; the key
  is the trimmed expression. Quoted: the unescaped text between the quotes.\<close>

definition before_last_close :: "string \<Rightarrow> string" where
  "before_last_close r = rev (tl (dropWhile (\<lambda>c. c \<noteq> CHR '']'') (rev r)))"

definition bracket_token :: "string \<Rightarrow> (string \<times> string) option" where
  "bracket_token s =
     (case s of
        b # c # cs \<Rightarrow>
          if b \<noteq> CHR ''['' then None
          else if is_quote c then
            (case quoted_rest c cs of
               Some (subString, rest) \<Rightarrow> Some (unescape subString, rest)
             | None \<Rightarrow> None)
          else
            (let run = takeWhile (\<lambda>x. x \<noteq> CHR ''['') cs in
             if CHR '']'' \<in> set run then
               (let x = before_last_close run
                in Some (trim (c # x), drop (Suc (length x)) cs))
             else None)
      | _ \<Rightarrow> None)"

text \<open>The empty alternative \<open>(?=(?:\.|\[\])(?:\.|\[\]|$))\<close>.\<close>

definition dot_or_marker :: "string \<Rightarrow> string option" where
  "dot_or_marker s =
     (case s of
        c # cs \<Rightarrow>
          if c = CHR ''.'' then Some cs
          else if c = CHR ''['' \<and> (case cs of d # ds \<Rightarrow> d = CHR '']'' | [] \<Rightarrow> False)
          then Some (tl cs)
          else None
      | [] \<Rightarrow> None)"

definition empty_segment :: "string \<Rightarrow> bool" where
  "empty_segment s =
     (case dot_or_marker s of
        Some r \<Rightarrow> r = [] \<or> dot_or_marker r \<noteq> None
      | None \<Rightarrow> False)"

lemma quoted_rest_shorter: "quoted_rest q s = Some (body, rest) \<Longrightarrow> length rest < length s"
  by (induction q s arbitrary: body rest rule: quoted_rest.induct)
     (auto split: if_splits option.splits)

lemma bracket_token_shorter: "bracket_token s = Some (key, rest) \<Longrightarrow> length rest < length s"
  by (auto simp: bracket_token_def Let_def split: list.splits if_splits option.splits
           dest: quoted_rest_shorter)

text \<open>The keys that \<open>string.replace(rePropName, ...)\<close> pushes, from left to right. At
  each position the alternatives are tried in order; after an empty match, and where
  nothing matches, the search goes on one character further.\<close>

function propNames :: "string \<Rightarrow> string list" where
  "propNames [] = []"
| "propNames (c # cs) =
     (if \<not> is_separator c then
        takeWhile (\<lambda>x. \<not> is_separator x) (c # cs)
          # propNames (dropWhile (\<lambda>x. \<not> is_separator x) (c # cs))
      else (case bracket_token (c # cs) of
              Some (key, rest) \<Rightarrow> key # propNames rest
            | None \<Rightarrow> if empty_segment (c # cs) then [] # propNames cs else propNames cs))"
  by pat_completeness auto
termination
proof (relation "measure length", goal_cases)
  case 1
  show ?case by simp
next
  case (2 c cs)
  have "length (dropWhile (\<lambda>x. \<not> is_separator x) cs) \<le> length cs"
    by (rule length_dropWhile_le)
  with 2 show ?case by simp
next
  case 3
  then show ?case by simp
next
  case 4
  then show ?case by simp
next
  case (5 c cs tok key rest)
  then have "bracket_token (c # cs) = Some (key, rest)" by simp
  then have "length rest < length (c # cs)" by (rule bracket_token_shorter)
  then show ?case by simp
qed

declare propNames.simps(2) [simp del]

subsection \<open>The resolver of \<open>index.js\<close>\<close>

definition isKey :: "jsval \<Rightarrow> jsval \<Rightarrow> bool" where
  "isKey value object =
     (if Array_isArray value then False
      else if typeof value = ''number'' \<or> typeof value = ''boolean'' \<or> nullish value then True
      else reIsPlainProp_test (ToString value) \<or> \<not> reIsDeepProp_test (ToString value)
         \<or> (\<not> nullish object \<and> js_in (ToString value) object))"

text \<open>\<open>stringToPath\<close> is memoized by its argument (\<open>memoizeCapped\<close>); the cache returns
  what the function computes, which is what is modelled. Called on a value that is not
  a string, \<open>string.charCodeAt\<close> is not a function.\<close>

definition stringToPath :: "jsval \<Rightarrow> js_error + jsval list" where
  "stringToPath v =
     (case v of
        JStr string \<Rightarrow>
          Inr (map JStr
            ((if string \<noteq> [] \<and> hd string = CHR ''.'' then [[]] else []) @ propNames string))
      | _ \<Rightarrow> Inl (JsTypeError ''string.charCodeAt is not a function''))"

definition castPath :: "jsval \<Rightarrow> jsval \<Rightarrow> js_error + jsval list" where
  "castPath value object =
     (case value of
        JArr keys \<Rightarrow> Inr keys
      | _ \<Rightarrow> if isKey value object then Inr [value] else stringToPath value)"

definition toKey :: "jsval \<Rightarrow> string" where
  "toKey value = (case value of JStr s \<Rightarrow> s | _ \<Rightarrow> ToString value)"

text \<open>The loop of \<open>baseGet\<close>, from the values of \<open>object\<close> and \<open>index\<close> to their values
  when it ends.\<close>

function walk_loop :: "jsval \<Rightarrow> jsval list \<Rightarrow> nat \<Rightarrow> jsval \<times> nat" where
  "walk_loop object path index =
     (if \<not> nullish object \<and> index < length path
      then walk_loop (js_index object (toKey (path ! index))) path (index + 1)
      else (object, index))"
  by pat_completeness auto
termination
  by (relation "measure (\<lambda>(object, path, index). length path - index)") auto

declare walk_loop.simps [simp del]

definition walk_result :: "jsval list \<Rightarrow> jsval \<times> nat \<Rightarrow> jsval" where
  "walk_result path r =
     (case r of (object, index) \<Rightarrow>
        if index \<noteq> 0 \<and> index = length path then object else Undefined)"

definition baseGet :: "jsval \<Rightarrow> jsval \<Rightarrow> js_error + jsval" where
  "baseGet object path =
     (case castPath path object of
        Inl e \<Rightarrow> Inl e
      | Inr keys \<Rightarrow> Inr (walk_result keys (walk_loop object keys 0)))"

text \<open>\<open>get(object, path, defaultValue)\<close>; the engine never passes a default value, so
  an undefined result stays undefined.\<close>

definition get :: "jsval \<Rightarrow> jsval \<Rightarrow> js_error + jsval" where
  "get object path = (if nullish object then Inr Undefined else baseGet object path)"

subsection \<open>The resolver of the second source file\<close>

text \<open>The second file has the same functions with a shorter tokenizer: \<open>isKey\<close> has no
  array test, \<open>rePropName\<close> is \<open>/[^.[\]]+/g\<close> and \<open>castPath\<close> takes no pre-split
  path. Its definitions carry the suffix \<open>_p0\<close>.\<close>

definition isKey_p0 :: "jsval \<Rightarrow> jsval \<Rightarrow> bool" where
  "isKey_p0 value object =
     (if typeof value = ''number'' \<or> typeof value = ''boolean'' \<or> nullish value then True
      else reIsPlainProp_test (ToString value) \<or> \<not> reIsDeepProp_test (ToString value)
         \<or> (\<not> nullish object \<and> js_in (ToString value) object))"

function propNames_p0 :: "string \<Rightarrow> string list" where
  "propNames_p0 [] = []"
| "propNames_p0 (c # cs) =
     (if \<not> is_separator c then
        takeWhile (\<lambda>x. \<not> is_separator x) (c # cs)
          # propNames_p0 (dropWhile (\<lambda>x. \<not> is_separator x) (c # cs))
      else propNames_p0 cs)"
  by pat_completeness auto
termination
proof (relation "measure length", goal_cases)
  case 1
  show ?case by simp
next
  case (2 c cs)
  have "length (dropWhile (\<lambda>x. \<not> is_separator x) cs) \<le> length cs"
    by (rule length_dropWhile_le)
  with 2 show ?case by simp
next
  case 3
  then show ?case by simp
qed

declare propNames_p0.simps(2) [simp del]

definition stringToPath_p0 :: "jsval \<Rightarrow> js_error + jsval list" where
  "stringToPath_p0 v =
     (case v of
        JStr string \<Rightarrow> Inr (map JStr (propNames_p0 string))
      | _ \<Rightarrow> Inl (JsTypeError ''string.replace is not a function''))"

definition castPath_p0 :: "jsval \<Rightarrow> jsval \<Rightarrow> js_error + jsval list" where
  "castPath_p0 value object =
     (if isKey_p0 value object then Inr [value] else stringToPath_p0 value)"

definition get_p0 :: "jsval \<Rightarrow> jsval \<Rightarrow> js_error + jsval" where
  "get_p0 object path =
     (case castPath_p0 path object of
        Inl e \<Rightarrow> Inl e
      | Inr keys \<Rightarrow> Inr (walk_result keys (walk_loop object keys 0)))"

section \<open>The rule evaluator\<close>

subsection \<open>Stringification\<close>

text \<open>\<open>toString\<close> of \<open>index.js\<close>: an array is mapped element by element (\<open>null\<close> and
  \<open>undefined\<close> elements stay) and the mapped array is printed.\<close>

fun toString :: "jsval \<Rightarrow> string" where
  "toString Undefined = []"
| "toString Null = []"
| "toString (JStr s) = s"
| "toString (JArr xs) =
     ToString (JArr (map (\<lambda>other. if nullish other then other else JStr (toString other)) xs))"
| "toString v = ToString v"

text \<open>\<open>toString\<close> of the second file has no array case.\<close>

definition toString_p0 :: "jsval \<Rightarrow> string" where
  "toString_p0 v = (if nullish v then [] else case v of JStr s \<Rightarrow> s | _ \<Rightarrow> ToString v)"

subsection \<open>Settings, callbacks and the state of an evaluation\<close>

text \<open>
  The three callbacks are functions of the host. They may change the reference they
  are given or can reach, so each returns, beside its result, the reference as it is
  after the call: \<open>transformValueFn targetValue reference property\<close>,
  \<open>previousValueFn reference property\<close> and \<open>log debugStr\<close> (the last with the
  reference as its second argument here). A callback that is absent, or is no
  function, is \<open>None\<close>. The settings argument itself is \<open>None\<close> when it is not truthy;
  a truthy value without a \<open>rules\<close> property has \<open>rules = Undefined\<close>.
\<close>

record settings =
  rules :: jsval
  satisfy :: jsval
  transformValueFn :: "(jsval \<Rightarrow> jsval \<Rightarrow> jsval \<Rightarrow> jsval \<times> jsval) option"
  previousValueFn :: "(jsval \<Rightarrow> jsval \<Rightarrow> jsval \<times> jsval) option"
  log :: "(string \<Rightarrow> jsval \<Rightarrow> jsval) option"

text \<open>The variables that the callback of \<open>settings.rules.map\<close> updates, and the
  reference.\<close>

record state =
  debugStr :: string
  requiredPassed :: nat
  normalPassed :: nat
  ref_state :: jsval

text \<open>What a call returns: the outcome (\<open>null\<close> or a boolean), the trace handed to
  \<open>settings.log\<close> if that was called, and the reference afterwards.\<close>

record verdict =
  outcome :: jsval
  logged :: "string option"
  ref_after :: jsval

type_synonym resolver = "jsval \<Rightarrow> jsval \<Rightarrow> js_error + jsval"

subsection \<open>Resolving the value of a rule\<close>

text \<open>\<open>items.map(f)\<close> for a callback that may throw.\<close>

fun map_items :: "(jsval \<Rightarrow> js_error + jsval) \<Rightarrow> jsval list \<Rightarrow> js_error + jsval list" where
  "map_items f [] = Inr []"
| "map_items f (item # items) =
     (case f item of
        Inl e \<Rightarrow> Inl e
      | Inr v \<Rightarrow> (case map_items f items of Inl e \<Rightarrow> Inl e | Inr vs \<Rightarrow> Inr (v # vs)))"

text \<open>The body of \<open>if (rule.property.includes("[]"))\<close> for a string property: split at
  the marker, drop the first character of the second part, and map over what the first
  part resolves to. Only an array has a \<open>map\<close> method.\<close>

definition expand_wildcard :: "resolver \<Rightarrow> jsval \<Rightarrow> string \<Rightarrow> js_error + jsval" where
  "expand_wildcard get_fn reference property =
     (case split_marker property of
        topPath # second # others \<Rightarrow>
          (let nestedPath = drop 1 second in
           case get_fn reference (JStr topPath) of
             Inl e \<Rightarrow> Inl e
           | Inr (JArr items) \<Rightarrow>
               (case map_items
                       (\<lambda>item. if nestedPath \<noteq> [] then get_fn item (JStr nestedPath) else Inr item)
                       items of
                  Inl e \<Rightarrow> Inl e
                | Inr vs \<Rightarrow> Inr (JArr vs))
           | Inr other \<Rightarrow>
               Inl (JsTypeError
                 (if nullish other then ''Cannot read properties of undefined (reading map)''
                  else ''get(...).map is not a function'')))
      | _ \<Rightarrow> Inl (JsTypeError ''nestedPath is undefined''))"

text \<open>Lines 230 to 237 of \<open>index.js\<close>. A property that is an array has the \<open>includes\<close>
  of arrays and no \<open>split\<close>; any other truthy property that is not a string has no
  \<open>includes\<close>.\<close>

definition resolve_value :: "resolver \<Rightarrow> jsval \<Rightarrow> jsval \<Rightarrow> js_error + jsval" where
  "resolve_value get_fn reference property =
     (case get_fn reference property of
        Inl e \<Rightarrow> Inl e
      | Inr value \<Rightarrow>
          (case property of
             JStr p \<Rightarrow>
               if includes_str p ''[]'' then expand_wildcard get_fn reference p else Inr value
           | JArr keys \<Rightarrow>
               if includes_arr keys (JStr ''[]'')
               then Inl (JsTypeError ''rule.property.split is not a function'')
               else Inr value
           | _ \<Rightarrow> Inl (JsTypeError ''rule.property.includes is not a function'')))"

definition transform_target :: "settings \<Rightarrow> jsval \<Rightarrow> jsval \<Rightarrow> jsval \<Rightarrow> jsval \<times> jsval" where
  "transform_target s targetValue reference property =
     (case transformValueFn s of
        Some f \<Rightarrow> f targetValue reference property
      | None \<Rightarrow> (targetValue, reference))"

text \<open>The boolean reading of a string target against a boolean value; \<open>None\<close> is the
  \<open>null\<close> of the source.\<close>

definition altComparison_of :: "jsval \<Rightarrow> jsval \<Rightarrow> bool option" where
  "altComparison_of value targetValue =
     (if typeof value = ''boolean'' \<and> typeof targetValue = ''string'' then
        (let a = (if toLowerCase (ToString targetValue) = ''false'' then Some False else None)
         in if toLowerCase (ToString targetValue) = ''true'' then Some True else a)
      else None)"

subsection \<open>The operators\<close>

definition elements :: "jsval \<Rightarrow> jsval list" where
  "elements v = (case v of JArr xs \<Rightarrow> xs | _ \<Rightarrow> [])"

definition op_eq :: "jsval \<Rightarrow> jsval \<Rightarrow> bool option \<Rightarrow> bool" where
  "op_eq value targetValue altComparison =
     (let result = loose_eq value targetValue in
      case altComparison of
        Some a \<Rightarrow> result \<or> loose_eq value (JBool a)
      | None \<Rightarrow> result)"

definition op_ne :: "jsval \<Rightarrow> jsval \<Rightarrow> bool option \<Rightarrow> bool" where
  "op_ne value targetValue altComparison =
     (let result = loose_ne value targetValue in
      case altComparison of
        Some a \<Rightarrow> result \<and> loose_ne value (JBool a)
      | None \<Rightarrow> result)"

definition op_all :: "jsval \<Rightarrow> jsval \<Rightarrow> bool" where
  "op_all value targetValue =
     (Array_isArray value
      \<and> \<not> truthy (find_arr (\<lambda>v. strict_ne v targetValue) (elements value)))"

definition op_some :: "jsval \<Rightarrow> jsval \<Rightarrow> bool" where
  "op_some value targetValue = (Array_isArray value \<and> includes_arr (elements value) targetValue)"

definition op_none :: "jsval \<Rightarrow> jsval \<Rightarrow> bool" where
  "op_none value targetValue =
     ((Array_isArray value \<or> value = Null \<or> typeof value = ''undefined'')
      \<and> \<not> includes_arr (elements (if truthy value then value else JArr [])) targetValue)"

text \<open>The \<open>crosses\<close> case: the previous value comes from the callback, and the trace is
  assigned the line of this rule.\<close>

definition crosses_line :: "nat \<Rightarrow> jsval \<Rightarrow> jsval \<Rightarrow> jsval \<Rightarrow> jsval \<Rightarrow> bool \<Rightarrow> string" where
  "crosses_line index property lastValue value targetValue result =
     ''('' @ string_of_nat index @ '') '' @ ToString property @ '' was '' @ ToString lastValue
       @ '' and became '' @ ToString value @ ''. crossed '' @ ToString targetValue @ ''? ''
       @ ToString (JBool result) @ [newline]"

definition no_previous_value_message :: string where
  "no_previous_value_message =
     ''Comparison '' @ [CHR 0x22] @ ''crosses'' @ [CHR 0x22]
       @ '' selected, but no function supplied to return previous value''"

definition op_crosses ::
  "settings \<Rightarrow> nat \<Rightarrow> jsval \<Rightarrow> jsval \<Rightarrow> jsval \<Rightarrow> state \<Rightarrow> js_error + (bool \<times> state)" where
  "op_crosses s index property value targetValue st =
     (case previousValueFn s of
        None \<Rightarrow>
          Inl (JsError no_previous_value_message None)
      | Some f \<Rightarrow>
          (case f (ref_state st) property of
             (lastValue, reference') \<Rightarrow>
               (let result = (js_gt targetValue lastValue \<and> js_lte targetValue value)
                in Inr (result,
                     st\<lparr>debugStr := crosses_line index property lastValue value targetValue result,
                        ref_state := reference'\<rparr>))))"

text \<open>The \<open>switch (rule.op)\<close>: each \<open>case\<close> label is compared with \<open>===\<close>.\<close>

definition switch_op ::
  "(jsval \<Rightarrow> string) \<Rightarrow> settings \<Rightarrow> nat \<Rightarrow> jsval \<Rightarrow> jsval \<Rightarrow> jsval \<Rightarrow> jsval \<Rightarrow> bool option
     \<Rightarrow> state \<Rightarrow> js_error + (bool \<times> state)" where
  "switch_op toString_fn s index rule property value targetValue altComparison st =
     (let op = js_index rule ''op'' in
      if op = JStr ''eq'' then Inr (op_eq value targetValue altComparison, st)
      else if op = JStr ''ne'' \<or> op = JStr ''neq'' then
        Inr (op_ne value targetValue altComparison, st)
      else if op = JStr ''gt'' then Inr (js_gt value targetValue, st)
      else if op = JStr ''gte'' then Inr (js_gte value targetValue, st)
      else if op = JStr ''lt'' then Inr (js_lt value targetValue, st)
      else if op = JStr ''lte'' then Inr (js_lte value targetValue, st)
      else if op = JStr ''startsWith'' then
        Inr (startsWith (toString_fn value) (ToString targetValue), st)
      else if op = JStr ''endsWith'' then
        Inr (endsWith (toString_fn value) (ToString targetValue), st)
      else if op = JStr ''contains'' then
        Inr (includes_str (toString_fn value) (ToString targetValue), st)
      else if op = JStr ''present'' then Inr (truthy value, st)
      else if op = JStr ''empty'' \<or> op = JStr ''absent'' then Inr (\<not> truthy value, st)
      else if op = JStr ''all'' then Inr (op_all value targetValue, st)
      else if op = JStr ''some'' then Inr (op_some value targetValue, st)
      else if op = JStr ''none'' then Inr (op_none value targetValue, st)
      else if op = JStr ''crosses'' then op_crosses s index property value targetValue st
      else Inl (JsError (''Unknown comparison for rule ('' @ ToString op @ '')'') (Some rule)))"

subsection \<open>One rule\<close>

definition rule_line :: "nat \<Rightarrow> jsval \<Rightarrow> jsval \<Rightarrow> jsval \<Rightarrow> jsval \<Rightarrow> bool \<Rightarrow> string" where
  "rule_line index rule value targetValue property result =
     (let op = js_index rule ''op'';
          unary = includes_arr [JStr ''absent'', JStr ''present''] op
      in ''('' @ string_of_nat index @ '') '' @ ToString property @ '' ('' @ ToString value
           @ '') '' @ (if unary then ''is'' else []) @ '' '' @ ToString op @ '' ''
           @ (if unary then [] else ToString targetValue) @ ''? '' @ ToString (JBool result)
           @ [newline])"

text \<open>The statements after the \<open>switch\<close>: the counters, then the line of the rule
  appended to the trace.\<close>

definition record_result ::
  "nat \<Rightarrow> jsval \<Rightarrow> jsval \<Rightarrow> jsval \<Rightarrow> jsval \<Rightarrow> bool \<Rightarrow> state \<Rightarrow> state" where
  "record_result index rule property value targetValue result st =
     (let st1 =
        (if result then
           (if truthy (js_index rule ''required'')
            then st\<lparr>requiredPassed := requiredPassed st + 1\<rparr>
            else st\<lparr>normalPassed := normalPassed st + 1\<rparr>)
         else st)
      in st1\<lparr>debugStr := debugStr st1 @ rule_line index rule value targetValue property result\<rparr>)"

text \<open>The callback of \<open>settings.rules.map\<close>. Reading \<open>rule.property\<close> of \<open>null\<close> or
  \<open>undefined\<close> is a type error.\<close>

definition rule_callback ::
  "resolver \<Rightarrow> (jsval \<Rightarrow> string) \<Rightarrow> settings \<Rightarrow> state \<Rightarrow> jsval \<Rightarrow> nat
     \<Rightarrow> js_error + (bool \<times> state)" where
  "rule_callback get_fn toString_fn s st rule index =
     (if nullish rule then Inl (JsTypeError ''Cannot read properties of rule'')
      else if \<not> truthy (js_index rule ''property'') then
        Inl (JsError (''Property not specified for rule '' @ string_of_nat index) (Some rule))
      else
        (case resolve_value get_fn (ref_state st) (js_index rule ''property'') of
           Inl e \<Rightarrow> Inl e
         | Inr value \<Rightarrow>
             (case transform_target s (js_index rule ''value'') (ref_state st)
                     (js_index rule ''property'') of
                (targetValue, reference') \<Rightarrow>
                  (case switch_op toString_fn s index rule (js_index rule ''property'') value
                          targetValue (altComparison_of value targetValue)
                          (st\<lparr>ref_state := reference'\<rparr>) of
                     Inl e \<Rightarrow> Inl e
                   | Inr (result, st') \<Rightarrow>
                       Inr (result,
                         record_result index rule (js_index rule ''property'') value
                           targetValue result st')))))"

subsection \<open>All rules, and the verdict\<close>

text \<open>\<open>settings.rules.map(callback)\<close>: the rules in order, each with its index; the
  first exception ends the evaluation.\<close>

fun map_rules ::
  "resolver \<Rightarrow> (jsval \<Rightarrow> string) \<Rightarrow> settings \<Rightarrow> jsval list \<Rightarrow> nat \<Rightarrow> state
     \<Rightarrow> js_error + (bool list \<times> state)" where
  "map_rules get_fn toString_fn s [] index st = Inr ([], st)"
| "map_rules get_fn toString_fn s (rule # rest) index st =
     (case rule_callback get_fn toString_fn s st rule index of
        Inl e \<Rightarrow> Inl e
      | Inr (result, st') \<Rightarrow>
          (case map_rules get_fn toString_fn s rest (index + 1) st' of
             Inl e \<Rightarrow> Inl e
           | Inr (results, st'') \<Rightarrow> Inr (result # results, st'')))"

text \<open>\<open>settings.rules.reduce((total, rule) => total + (rule.required ? 1 : 0), 0)\<close>.\<close>

definition requiredTotal_of :: "jsval list \<Rightarrow> nat" where
  "requiredTotal_of rs =
     foldl (\<lambda>total rule. total + (if truthy (js_index rule ''required'') then 1 else 0)) 0 rs"

definition requiredSatisfied_of :: "nat \<Rightarrow> nat \<Rightarrow> bool" where
  "requiredSatisfied_of requiredTotal requiredPassed_n =
     (requiredTotal = 0 \<or> requiredTotal = requiredPassed_n)"

definition normalSatisfied_of :: "jsval \<Rightarrow> nat \<Rightarrow> nat \<Rightarrow> bool" where
  "normalSatisfied_of satisfy_v normalTotal normalPassed_n =
     (normalTotal = 0
      \<or> (if satisfy_v = JStr ''ALL'' then normalPassed_n = normalTotal else normalPassed_n > 0))"

definition summary :: "jsval \<Rightarrow> nat \<Rightarrow> nat \<Rightarrow> nat \<Rightarrow> nat \<Rightarrow> string" where
  "summary satisfy_v requiredTotal normalTotal requiredPassed_n normalPassed_n =
     (if normalTotal > 0 then
        ''Passed '' @ string_of_nat normalPassed_n @ '' / '' @ string_of_nat normalTotal
          @ '' (need '' @ ToString satisfy_v @ '', ''
          @ (if normalSatisfied_of satisfy_v normalTotal normalPassed_n then ''pass'' else ''fail'')
          @ '')'' @ [newline]
      else [])
     @ (if requiredTotal > 0 then
          ''Passed '' @ string_of_nat requiredPassed_n @ '' / '' @ string_of_nat requiredTotal
            @ '' required conditions (''
            @ (if requiredSatisfied_of requiredTotal requiredPassed_n then ''pass'' else ''fail'')
            @ '')'' @ [newline]
        else [])
     @ ''Result: ''
     @ (if normalSatisfied_of satisfy_v normalTotal normalPassed_n
           \<and> requiredSatisfied_of requiredTotal requiredPassed_n
        then ''PASS'' else ''FAIL'')"

text \<open>The statements after the \<open>map\<close>, from the state it leaves.\<close>

definition conclude :: "settings \<Rightarrow> jsval list \<Rightarrow> state \<Rightarrow> verdict" where
  "conclude s rs st =
     (let requiredTotal = requiredTotal_of rs;
          normalTotal = length rs - requiredTotal;
          satisfy_v = (if truthy (satisfy s) then satisfy s else JStr ''ANY'');
          requiredSatisfied = requiredSatisfied_of requiredTotal (requiredPassed st);
          normalSatisfied = normalSatisfied_of satisfy_v normalTotal (normalPassed st);
          trace = debugStr st
            @ summary satisfy_v requiredTotal normalTotal (requiredPassed st) (normalPassed st)
      in \<lparr>outcome = JBool (normalSatisfied \<and> requiredSatisfied),
          logged = (case log s of Some f \<Rightarrow> Some trace | None \<Rightarrow> None),
          ref_after = (case log s of Some f \<Rightarrow> f trace (ref_state st) | None \<Rightarrow> ref_state st)\<rparr>)"

definition initial_state :: "jsval \<Rightarrow> state" where
  "initial_state reference =
     \<lparr>debugStr = [], requiredPassed = 0, normalPassed = 0, ref_state = reference\<rparr>"

text \<open>\<open>checkConditions\<close> over a resolver and a stringification, which is all the two
  source files differ in.\<close>

definition checkConditions_with ::
  "resolver \<Rightarrow> (jsval \<Rightarrow> string) \<Rightarrow> settings option \<Rightarrow> jsval \<Rightarrow> js_error + verdict" where
  "checkConditions_with get_fn toString_fn settings_arg reference =
     (case settings_arg of
        None \<Rightarrow> Inr \<lparr>outcome = Null, logged = None, ref_after = reference\<rparr>
      | Some s \<Rightarrow>
          (case rules s of
             JArr rs \<Rightarrow>
               (case map_rules get_fn toString_fn s rs 0 (initial_state reference) of
                  Inl e \<Rightarrow> Inl e
                | Inr (results, st) \<Rightarrow> Inr (conclude s rs st))
           | _ \<Rightarrow> Inr \<lparr>outcome = Null, logged = None, ref_after = reference\<rparr>))"

text \<open>\<open>checkConditions\<close> of \<open>index.js\<close> (whose \<open>crosses\<close> case also prints the type of
  \<open>settings.previousValueFn\<close> on the console, with no effect on the evaluation), and of
  the second source file.\<close>

definition checkConditions :: "settings option \<Rightarrow> jsval \<Rightarrow> js_error + verdict" where
  "checkConditions = checkConditions_with get toString"

definition checkConditions_p0 :: "settings option \<Rightarrow> jsval \<Rightarrow> js_error + verdict" where
  "checkConditions_p0 = checkConditions_with get_p0 toString_p0"

section \<open>The notions of the specification\<close>

text \<open>The specification's reading of a resolution: follow the keys one by one, and
  give \<open>undefined\<close> as soon as a container on the way is \<open>null\<close> or \<open>undefined\<close>.\<close>

fun key_walk :: "jsval \<Rightarrow> string list \<Rightarrow> jsval" where
  "key_walk object [] = object"
| "key_walk object (k # ks) =
     (if nullish object then Undefined else key_walk (js_index object k) ks)"

text \<open>The totals and the pass counts as counts over the rules and their results:
  a rule is required when its \<open>required\<close> property is truthy, and the policy is
  \<open>ANY\<close> when \<open>satisfy\<close> is unset.\<close>

definition count_required :: "jsval list \<Rightarrow> nat" where
  "count_required rs = length (filter (\<lambda>rule. truthy (js_index rule ''required'')) rs)"

definition passed_required :: "jsval list \<Rightarrow> bool list \<Rightarrow> nat" where
  "passed_required rs results =
     length (filter (\<lambda>(rule, result). result \<and> truthy (js_index rule ''required'')) (zip rs results))"

definition passed_normal :: "jsval list \<Rightarrow> bool list \<Rightarrow> nat" where
  "passed_normal rs results =
     length (filter (\<lambda>(rule, result). result \<and> \<not> truthy (js_index rule ''required'')) (zip rs results))"

definition spec_outcome :: "jsval \<Rightarrow> jsval list \<Rightarrow> bool list \<Rightarrow> bool" where
  "spec_outcome satisfy_v rs results =
     (let requiredTotal = count_required rs;
          normalTotal = length rs - requiredTotal;
          policy = (if satisfy_v = Undefined then JStr ''ANY'' else satisfy_v);
          requiredSatisfied =
            (requiredTotal = 0 \<or> passed_required rs results = requiredTotal);
          normalSatisfied =
            (normalTotal = 0
             \<or> (if policy = JStr ''ALL'' then passed_normal rs results = normalTotal
                 else passed_normal rs results > 0))
      in normalSatisfied \<and> requiredSatisfied)"

text \<open>The state after a \<open>crosses\<close> rule: the trace is the line of the crossing and then
  the line of the rule, the counters are those of the result.\<close>

definition crosses_state ::
  "nat \<Rightarrow> jsval \<Rightarrow> jsval \<Rightarrow> jsval \<Rightarrow> jsval \<Rightarrow> jsval \<Rightarrow> bool \<Rightarrow> state \<Rightarrow> state" where
  "crosses_state index rule lastValue val targetValue reference' result st =
     record_result index rule (js_index rule ''property'') val targetValue result
       (st\<lparr>debugStr := crosses_line index (js_index rule ''property'') lastValue val targetValue
                         result,
           ref_state := reference'\<rparr>)"


text \<open>The callbacks of the settings leave the reference as they find it.\<close>

definition callbacks_keep_reference :: "settings \<Rightarrow> bool" where
  "callbacks_keep_reference s =
     ((case transformValueFn s of
         Some f \<Rightarrow> (\<forall>targetValue reference property. snd (f targetValue reference property) = reference)
       | None \<Rightarrow> True)
      \<and> (case previousValueFn s of
         Some f \<Rightarrow> (\<forall>reference property. snd (f reference property) = reference)
       | None \<Rightarrow> True)
      \<and> (case log s of
         Some f \<Rightarrow> (\<forall>trace reference. f trace reference = reference)
       | None \<Rightarrow> True))"

text \<open>The two source files: the entry point of each with its resolver and its
  stringification.\<close>

definition source_files ::
  "((settings option \<Rightarrow> jsval \<Rightarrow> js_error + verdict) \<times> resolver \<times> (jsval \<Rightarrow> string)) list" where
  "source_files =
     [(checkConditions, get, toString), (checkConditions_p0, get_p0, toString_p0)]"

section \<open>Observations and example data\<close>

text \<open>The parts of what a call returns or throws, and the boolean of the \<open>switch\<close>
  alone (\<open>None\<close> when it throws).\<close>

definition outcome_of :: "js_error + verdict \<Rightarrow> js_error + jsval" where
  "outcome_of r = map_sum id outcome r"

definition logged_of :: "js_error + verdict \<Rightarrow> js_error + string option" where
  "logged_of r = map_sum id logged r"

definition error_of :: "js_error + 'a \<Rightarrow> js_error option" where
  "error_of r = (case r of Inl e \<Rightarrow> Some e | Inr v \<Rightarrow> None)"

definition switch_result ::
  "(jsval \<Rightarrow> string) \<Rightarrow> settings \<Rightarrow> nat \<Rightarrow> jsval \<Rightarrow> jsval \<Rightarrow> jsval \<Rightarrow> jsval \<Rightarrow> bool option
     \<Rightarrow> state \<Rightarrow> bool option" where
  "switch_result toString_fn s index rule property value targetValue altComparison st =
     (case switch_op toString_fn s index rule property value targetValue altComparison st of
        Inl e \<Rightarrow> None
      | Inr (result, st') \<Rightarrow> Some result)"

text \<open>A rule object with the three properties \<open>property\<close>, \<open>op\<close> and \<open>value\<close>;
  settings without callbacks and without a \<open>satisfy\<close> policy; settings with a
  previous value of 5 and a log sink; settings whose three callbacks are pure.\<close>

definition rule_of :: "string \<Rightarrow> string \<Rightarrow> jsval \<Rightarrow> jsval" where
  "rule_of p opn v = JObj [(''property'', JStr p), (''op'', JStr opn), (''value'', v)]"


definition crosses_without_property :: jsval where
  "crosses_without_property = JObj [(''op'', JStr ''crosses''), (''value'', JNum (Fin 7))]"

definition fraction_reference :: jsval where
  "fraction_reference = JObj [(''a'', JStr ''7.5'')]"

definition plain_settings :: "jsval list \<Rightarrow> settings" where
  "plain_settings rs =
     \<lparr>rules = JArr rs, satisfy = Undefined, transformValueFn = None,
      previousValueFn = None, log = None\<rparr>"

definition crossing_settings :: "jsval list \<Rightarrow> settings" where
  "crossing_settings rs =
     (plain_settings rs)\<lparr>previousValueFn := Some (\<lambda>reference property. (JNum (Fin 5), reference)),
                          log := Some (\<lambda>trace reference. reference)\<rparr>"

definition pure_callbacks :: "jsval list \<Rightarrow> settings" where
  "pure_callbacks rs =
     \<lparr>rules = JArr rs, satisfy = JStr ''ALL'',
      transformValueFn = Some (\<lambda>targetValue reference property. (targetValue, reference)),
      previousValueFn = Some (\<lambda>reference property. (JNum (Fin 5), reference)),
      log = Some (\<lambda>trace reference. reference)\<rparr>"

definition aggregation_rules :: "jsval list" where
  "aggregation_rules =
     [JObj [(''property'', JStr ''a''), (''op'', JStr ''eq''), (''value'', JNum (Fin 10)),
            (''required'', JBool True)],
      rule_of ''a'' ''eq'' (JNum (Fin 10)),
      rule_of ''a'' ''eq'' (JNum (Fin 11))]"

definition aggregation_settings :: "jsval \<Rightarrow> settings" where
  "aggregation_settings policy = (plain_settings aggregation_rules)\<lparr>satisfy := policy\<rparr>"

definition aggregation_reference :: jsval where
  "aggregation_reference = JObj [(''a'', JNum (Fin 10))]"


definition collection_reference :: jsval where
  "collection_reference =
     JObj [(''items'', JArr [JObj [(''x'', JNum (Fin 1))], JObj [(''y'', JNum (Fin 2))]])]"

section \<open>Properties of the path resolver\<close>

lemma key_walk_nullish: "nullish object \<Longrightarrow> ks \<noteq> [] \<Longrightarrow> key_walk object ks = Undefined"
  by (cases ks) auto


text \<open>The loop of \<open>baseGet\<close>, started at any index, against the walk of the keys that
  remain.\<close>

lemma walk_loop_key_walk:
  "index \<le> length path \<Longrightarrow>
   walk_result path (walk_loop object path index) =
     (if index = length path then (if index = 0 then Undefined else object)
      else key_walk object (map toKey (drop index path)))"
proof (induction object path index rule: walk_loop.induct)
  case (1 object path index)
  show ?case
  proof (cases "\<not> nullish object \<and> index < length path")
    case True
    then have step: "walk_loop object path index =
        walk_loop (js_index object (toKey (path ! index))) path (index + 1)"
      by (subst walk_loop.simps) simp
    from True have d: "drop index path = path ! index # drop (Suc index) path"
      by (simp add: Cons_nth_drop_Suc)
    from True have "index + 1 \<le> length path" by simp
    with 1 True have IH:
      "walk_result path (walk_loop (js_index object (toKey (path ! index))) path (index + 1)) =
         (if index + 1 = length path
          then (if index + 1 = 0 then Undefined else js_index object (toKey (path ! index)))
          else key_walk (js_index object (toKey (path ! index)))
                 (map toKey (drop (index + 1) path)))"
      by blast
    have "walk_result path (walk_loop object path index) =
        key_walk (js_index object (toKey (path ! index))) (map toKey (drop (Suc index) path))"
      unfolding step IH by simp
    also have "\<dots> = key_walk object (map toKey (drop index path))"
      using True by (simp add: d)
    finally show ?thesis using True by simp
  next
    case False
    then have stop: "walk_loop object path index = (object, index)"
      by (subst walk_loop.simps) auto
    have res: "walk_result path (walk_loop object path index) =
        (if index \<noteq> 0 \<and> index = length path then object else Undefined)"
      unfolding stop walk_result_def by simp
    show ?thesis
    proof (cases "index = length path")
      case True
      then show ?thesis unfolding res by simp
    next
      case ne: False
      with False 1 have n: "nullish object" and lt: "index < length path" by auto
      from lt have "map toKey (drop index path) \<noteq> []" by simp
      with n have "key_walk object (map toKey (drop index path)) = Undefined"
        by (rule key_walk_nullish)
      then show ?thesis using ne unfolding res by simp
    qed
  qed
qed

lemma walk_from_start:
  "walk_result keys (walk_loop object keys 0) =
     (if keys = [] then Undefined else key_walk object (map toKey keys))"
  using walk_loop_key_walk [of 0 keys object] by auto

lemma baseGet_key_walk:
  "castPath path object = Inr keys \<Longrightarrow>
   baseGet object path = Inr (if keys = [] then Undefined else key_walk object (map toKey keys))"
  by (simp add: baseGet_def walk_from_start)

lemma get_key_walk:
  "castPath path object = Inr keys \<Longrightarrow>
   get object path = Inr (if keys = [] then Undefined else key_walk object (map toKey keys))"
  by (cases "keys = []") (auto simp: get_def baseGet_key_walk key_walk_nullish)

lemma get_p0_key_walk:
  "castPath_p0 path object = Inr keys \<Longrightarrow>
   get_p0 object path = Inr (if keys = [] then Undefined else key_walk object (map toKey keys))"
  by (simp add: get_p0_def walk_from_start)

lemma castPath_string: "\<exists>keys. castPath (JStr p) object = Inr keys"
  by (simp add: castPath_def stringToPath_def)

lemma castPath_p0_string: "\<exists>keys. castPath_p0 (JStr p) object = Inr keys"
  by (simp add: castPath_p0_def stringToPath_p0_def)



text \<open>A string path is resolved without an exception, and to \<open>undefined\<close> in a
  container that is \<open>null\<close> or \<open>undefined\<close>.\<close>

lemma get_string:
  "(\<exists>v. get object (JStr p) = Inr v)
   \<and> (nullish object \<longrightarrow> get object (JStr p) = Inr Undefined)"
proof -
  obtain keys where k: "castPath (JStr p) object = Inr keys"
    using castPath_string by blast
  note g = get_key_walk [OF k]
  show ?thesis
    using g key_walk_nullish [of object "map toKey keys"] by (cases "keys = []") auto
qed

lemma get_p0_string:
  "(\<exists>v. get_p0 object (JStr p) = Inr v)
   \<and> (nullish object \<longrightarrow> get_p0 object (JStr p) = Inr Undefined)"
proof -
  obtain keys where k: "castPath_p0 (JStr p) object = Inr keys"
    using castPath_p0_string by blast
  note g = get_p0_key_walk [OF k]
  show ?thesis
    using g key_walk_nullish [of object "map toKey keys"] by (cases "keys = []") auto
qed

section \<open>Properties of the operators\<close>

lemma op_ne_not_op_eq: "op_ne value targetValue alt = (\<not> op_eq value targetValue alt)"
  by (cases alt) (auto simp: op_ne_def op_eq_def loose_ne_def)

text \<open>
  Claim C10. For every resolved value and every target value after the transform, the
  boolean that a rule with op \<open>ne\<close>, or its alias \<open>neq\<close>, computes is the negation of the
  boolean that a rule with op \<open>eq\<close> computes on the same pair, whatever the alternate
  boolean reading of the target is, and in particular with the reading the evaluator
  derives from the pair; neither operator throws.
\<close>

theorem ne_is_negation_of_eq:
  "switch_result toString_fn s i (rule_of p ''eq'' v) property value targetValue alt st
     = Some (op_eq value targetValue alt)
   \<and> switch_result toString_fn s i (rule_of p ''ne'' v) property value targetValue alt st
     = Some (\<not> op_eq value targetValue alt)
   \<and> switch_result toString_fn s i (rule_of p ''neq'' v) property value targetValue alt st
     = Some (\<not> op_eq value targetValue alt)
   \<and> switch_result toString_fn s i (rule_of p ''ne'' v) property value targetValue
        (altComparison_of value targetValue) st
     = map_option Not
        (switch_result toString_fn s i (rule_of p ''eq'' v) property value targetValue
           (altComparison_of value targetValue) st)"
  by (simp add: switch_result_def switch_op_def rule_of_def op_ne_not_op_eq)

text \<open>
  Claim C3, evaluated where it fails. The reference holds the array \<open>[0]\<close> and the rule
  asks that all its elements be \<open>1\<close>. \<open>find\<close> returns the element \<open>0\<close> that differs,
  which is falsy, so its negation is true: the rule passes and the verdict is true in
  both source files, although no element equals the target.
\<close>

theorem all_passes_on_falsy_mismatch:
  "op_all (JArr [JNum (Fin 0)]) (JNum (Fin 1)) = True
   \<and> strict_eq (JNum (Fin 0)) (JNum (Fin 1)) = False
   \<and> outcome_of (checkConditions (Some (plain_settings [rule_of ''xs'' ''all'' (JNum (Fin 1))]))
        (JObj [(''xs'', JArr [JNum (Fin 0)])])) = Inr (JBool True)
   \<and> outcome_of (checkConditions_p0 (Some (plain_settings [rule_of ''xs'' ''all'' (JNum (Fin 1))]))
        (JObj [(''xs'', JArr [JNum (Fin 0)])])) = Inr (JBool True)"
  by code_simp

text \<open>What the \<open>all\<close> operator computes on an array: it passes when no element differs
  from the target, and also when the first element that differs is falsy. On an array
  of truthy elements it is the conjunction over the elements.\<close>

lemma find_arr_dropWhile:
  "find_arr p xs = (case dropWhile (\<lambda>x. \<not> p x) xs of [] \<Rightarrow> Undefined | x # rest \<Rightarrow> x)"
  by (induction xs) auto

lemma op_all_first_mismatch:
  "op_all (JArr xs) targetValue =
     (case dropWhile (\<lambda>v. strict_eq v targetValue) xs of
        [] \<Rightarrow> True
      | v # rest \<Rightarrow> \<not> truthy v)"
  by (induction xs) (simp_all add: op_all_def elements_def strict_ne_def)

lemma op_all_truthy_elements:
  "list_all truthy xs \<Longrightarrow>
   op_all (JArr xs) targetValue = list_all (\<lambda>v. strict_eq v targetValue) xs"
proof (induction xs)
  case Nil
  then show ?case by (simp add: op_all_first_mismatch)
next
  case (Cons x xs)
  then show ?case by (simp add: op_all_first_mismatch)
qed

section \<open>Properties of the resolution of a rule's value\<close>

lemma split_marker_nonempty: "split_marker p \<noteq> []"
  by (induction p rule: split_marker.induct) (auto split: list.splits)

lemma split_marker_two:
  "includes_str p ''[]'' \<Longrightarrow> \<exists>a b cs. split_marker p = a # b # cs"
proof (induction p rule: split_marker.induct)
  case 1
  then show ?case by simp
next
  case (2 c)
  then show ?case by (simp add: startsWith_def)
next
  case (3 c d ds)
  show ?case
  proof (cases "c = CHR ''['' \<and> d = CHR '']''")
    case True
    then show ?thesis
      using split_marker_nonempty [of ds] by (cases "split_marker ds") auto
  next
    case False
    with 3 have "includes_str (d # ds) ''[]''"
      by (auto simp: startsWith_def)
    with 3 False obtain a b cs where "split_marker (d # ds) = a # b # cs" by blast
    with False show ?thesis by auto
  qed
qed

lemma map_items_total:
  "(\<And>item. \<exists>v. f item = Inr v) \<Longrightarrow>
   \<exists>vs. map_items f items = Inr vs \<and> length vs = length items"
proof (induction items)
  case Nil
  then show ?case by simp
next
  case (Cons item items)
  from Cons.prems obtain v where "f item = Inr v" by blast
  moreover from Cons obtain vs where "map_items f items = Inr vs" "length vs = length items"
    by blast
  ultimately show ?case by simp
qed

lemma expand_wildcard_array:
  assumes total: "\<And>object q. \<exists>v. get_fn object (JStr q) = Inr v"
    and inc: "includes_str p ''[]''"
    and coll: "get_fn reference (JStr (hd (split_marker p))) = Inr (JArr items)"
  shows "\<exists>vs. expand_wildcard get_fn reference p = Inr (JArr vs) \<and> length vs = length items"
proof -
  from split_marker_two [OF inc] obtain a b cs where sp: "split_marker p = a # b # cs" by blast
  with coll have c: "get_fn reference (JStr a) = Inr (JArr items)" by simp
  define f where "f = (\<lambda>item. if drop 1 b \<noteq> [] then get_fn item (JStr (drop 1 b)) else Inr item)"
  have "\<exists>v. f item = Inr v" for item
    using total by (simp add: f_def)
  from map_items_total [of f items, OF this]
  obtain vs where m: "map_items f items = Inr vs" and l: "length vs = length items" by blast
  have "expand_wildcard get_fn reference p =
      (case map_items f items of Inl e \<Rightarrow> Inl e | Inr vs \<Rightarrow> Inr (JArr vs))"
    unfolding expand_wildcard_def sp f_def Let_def by (simp only: list.case c sum.case jsval.case)
  with m l show ?thesis by simp
qed

lemma resolve_value_string:
  assumes total: "\<And>object q. \<exists>v. get_fn object (JStr q) = Inr v"
  shows "(\<not> includes_str p ''[]'' \<longrightarrow>
            resolve_value get_fn reference (JStr p) = get_fn reference (JStr p))
   \<and> (includes_str p ''[]'' \<and> get_fn reference (JStr (hd (split_marker p))) = Inr (JArr items) \<longrightarrow>
        (\<exists>vs. resolve_value get_fn reference (JStr p) = Inr (JArr vs) \<and> length vs = length items))"
proof -
  obtain v where v: "get_fn reference (JStr p) = Inr v" using total by blast
  have w: "includes_str p ''[]'' \<Longrightarrow>
      get_fn reference (JStr (hd (split_marker p))) = Inr (JArr items) \<Longrightarrow>
      \<exists>vs. expand_wildcard get_fn reference p = Inr (JArr vs) \<and> length vs = length items"
    using total by (rule expand_wildcard_array)
  show ?thesis
    using w by (auto simp: resolve_value_def v)
qed

text \<open>
  What holds of the resolution in both source files: a string path is resolved
  without an exception, and to \<open>undefined\<close> in a container that is \<open>null\<close> or
  \<open>undefined\<close>; a property without the marker \<open>[]\<close> resolves to what \<open>get\<close> returns;
  and a property with the marker whose collection path resolves to an array resolves
  to an array of the same length.
\<close>

theorem resolution_never_throws:
  "(check, get_fn, toString_fn) \<in> set source_files \<longrightarrow>
     (\<exists>v. get_fn object (JStr p) = Inr v)
   \<and> (nullish object \<longrightarrow> get_fn object (JStr p) = Inr Undefined)
   \<and> (\<not> includes_str p ''[]'' \<longrightarrow>
        resolve_value get_fn reference (JStr p) = get_fn reference (JStr p))
   \<and> (includes_str p ''[]''
       \<and> get_fn reference (JStr (hd (split_marker p))) = Inr (JArr items) \<longrightarrow>
        (\<exists>vs. resolve_value get_fn reference (JStr p) = Inr (JArr vs)
              \<and> length vs = length items))"
proof
  assume sf: "(check, get_fn, toString_fn) \<in> set source_files"
  then have g: "get_fn = get \<or> get_fn = get_p0"
    by (auto simp: source_files_def)
  have total: "\<exists>v. get_fn obj (JStr q) = Inr v" for obj q
    using g get_string [of obj q] get_p0_string [of obj q] by blast
  have a: "\<exists>v. get_fn object (JStr p) = Inr v" by (rule total)
  have b: "nullish object \<longrightarrow> get_fn object (JStr p) = Inr Undefined"
    using g get_string [of object p] get_p0_string [of object p] by blast
  note rv = resolve_value_string [of get_fn p, OF total]
  have c: "\<not> includes_str p ''[]'' \<longrightarrow>
        resolve_value get_fn reference (JStr p) = get_fn reference (JStr p)"
    using rv [of reference items] by blast
  have d: "includes_str p ''[]''
       \<and> get_fn reference (JStr (hd (split_marker p))) = Inr (JArr items) \<longrightarrow>
        (\<exists>vs. resolve_value get_fn reference (JStr p) = Inr (JArr vs)
              \<and> length vs = length items)"
    using rv [of reference items] by blast
  from a b c d show "(\<exists>v. get_fn object (JStr p) = Inr v)
   \<and> (nullish object \<longrightarrow> get_fn object (JStr p) = Inr Undefined)
   \<and> (\<not> includes_str p ''[]'' \<longrightarrow>
        resolve_value get_fn reference (JStr p) = get_fn reference (JStr p))
   \<and> (includes_str p ''[]''
       \<and> get_fn reference (JStr (hd (split_marker p))) = Inr (JArr items) \<longrightarrow>
        (\<exists>vs. resolve_value get_fn reference (JStr p) = Inr (JArr vs)
              \<and> length vs = length items))"
    by blast
qed

theorem resolution_never_throws_witness:
  "get collection_reference (JStr ''items[0].missing.deeper'') = Inr Undefined
   \<and> get Null (JStr ''a[0].b'') = Inr Undefined
   \<and> resolve_value get collection_reference (JStr ''items[0].x'')
       = get collection_reference (JStr ''items[0].x'')
   \<and> (\<exists>vs. resolve_value get collection_reference (JStr ''items[].x'') = Inr (JArr vs)
          \<and> length vs = 2)
   \<and> resolve_value get collection_reference (JStr ''items[].x'')
       = Inr (JArr [JNum (Fin 1), Undefined])"
proof -
  have sf: "(checkConditions, get, toString) \<in> set source_files"
    by (simp add: source_files_def)
  have e1: "get collection_reference (JStr ''items[0].missing.deeper'') = Inr Undefined"
    by code_simp
  have i1: "\<not> includes_str ''items[0].x'' ''[]''" by code_simp
  have i2: "includes_str ''items[].x'' ''[]''" by code_simp
  have h2: "get collection_reference (JStr (hd (split_marker ''items[].x'')))
      = Inr (JArr [JObj [(''x'', JNum (Fin 1))], JObj [(''y'', JNum (Fin 2))]])"
    by code_simp
  have e5: "resolve_value get collection_reference (JStr ''items[].x'')
       = Inr (JArr [JNum (Fin 1), Undefined])"
    by code_simp
  note t1 = resolution_never_throws
    [of checkConditions get toString Null "''a[0].b''" collection_reference "[]"]
  note t2 = resolution_never_throws
    [of checkConditions get toString Null "''items[0].x''" collection_reference "[]"]
  note t3 = resolution_never_throws
    [of checkConditions get toString Null "''items[].x''" collection_reference
        "[JObj [(''x'', JNum (Fin 1))], JObj [(''y'', JNum (Fin 2))]]"]
  have e2: "get Null (JStr ''a[0].b'') = Inr Undefined"
    using t1 sf by simp
  have e3: "resolve_value get collection_reference (JStr ''items[0].x'')
       = get collection_reference (JStr ''items[0].x'')"
    using t2 sf i1 by blast
  have "\<exists>vs. resolve_value get collection_reference (JStr ''items[].x'') = Inr (JArr vs)
          \<and> length vs = length [JObj [(''x'', JNum (Fin 1))], JObj [(''y'', JNum (Fin 2))]]"
    using t3 sf i2 h2 by blast
  then have e4: "\<exists>vs. resolve_value get collection_reference (JStr ''items[].x'') = Inr (JArr vs)
          \<and> length vs = 2"
    by (simp add: numeral_2_eq_2)
  from e1 e2 e3 e4 e5 show ?thesis by blast
qed

text \<open>
  Claim C2, evaluated where it fails. The reference is the empty object and the rule's
  property is \<open>items[].x\<close>. The collection path \<open>items\<close> resolves to \<open>undefined\<close>, as the
  resolver promises, and the evaluator then calls \<open>map\<close> on it: the evaluation of both
  source files ends with a \<open>TypeError\<close>, which is no authoring error.
\<close>

theorem wildcard_on_missing_collection_throws:
  "get (JObj []) (JStr ''items'') = Inr Undefined
   \<and> error_of (checkConditions
        (Some (plain_settings [rule_of ''items[].x'' ''eq'' (JNum (Fin 1))])) (JObj []))
      = Some (JsTypeError ''Cannot read properties of undefined (reading map)'')
   \<and> error_of (checkConditions_p0
        (Some (plain_settings [rule_of ''items[].x'' ''eq'' (JNum (Fin 1))])) (JObj []))
      = Some (JsTypeError ''Cannot read properties of undefined (reading map)'')"
  by code_simp

section \<open>Properties of the evaluator\<close>

lemma op_crosses_frame:
  "op_crosses s index property value targetValue st = Inr (result, st') \<Longrightarrow>
   requiredPassed st' = requiredPassed st \<and> normalPassed st' = normalPassed st"
  by (auto simp: op_crosses_def Let_def split: option.splits prod.splits)

lemma switch_op_cases:
  "switch_op toString_fn s index rule property value targetValue alt st = Inr (result, st') \<Longrightarrow>
   st' = st \<or> op_crosses s index property value targetValue st = Inr (result, st')"
  unfolding switch_op_def Let_def by (simp split: if_splits)

lemma switch_op_frame:
  "switch_op toString_fn s index rule property value targetValue alt st = Inr (result, st') \<Longrightarrow>
   requiredPassed st' = requiredPassed st \<and> normalPassed st' = normalPassed st"
  using switch_op_cases op_crosses_frame by blast

lemma record_result_counters:
  "requiredPassed (record_result index rule property value targetValue result st) =
     requiredPassed st + (if result \<and> truthy (js_index rule ''required'') then 1 else 0)
   \<and> normalPassed (record_result index rule property value targetValue result st) =
     normalPassed st + (if result \<and> \<not> truthy (js_index rule ''required'') then 1 else 0)"
  by (simp add: record_result_def Let_def)

lemma rule_callback_counters:
  assumes "rule_callback get_fn toString_fn s st rule index = Inr (result, st')"
  shows "requiredPassed st' =
     requiredPassed st + (if result \<and> truthy (js_index rule ''required'') then 1 else 0)
   \<and> normalPassed st' =
     normalPassed st + (if result \<and> \<not> truthy (js_index rule ''required'') then 1 else 0)"
proof -
  from assms obtain val targetValue reference' st1 where
    sw: "switch_op toString_fn s index rule (js_index rule ''property'') val targetValue
          (altComparison_of val targetValue) (st\<lparr>ref_state := reference'\<rparr>) = Inr (result, st1)"
    and st': "st' = record_result index rule (js_index rule ''property'') val targetValue result st1"
    by (auto simp: rule_callback_def split: if_splits sum.splits prod.splits)
  from switch_op_frame [OF sw] have "requiredPassed st1 = requiredPassed st"
    and "normalPassed st1 = normalPassed st" by simp_all
  then show ?thesis unfolding st' by (simp add: record_result_counters)
qed

lemma map_rules_counters:
  "map_rules get_fn toString_fn s rs index st = Inr (results, st') \<Longrightarrow>
   length results = length rs
   \<and> requiredPassed st' = requiredPassed st + passed_required rs results
   \<and> normalPassed st' = normalPassed st + passed_normal rs results"
proof (induction rs arbitrary: index st results)
  case Nil
  then show ?case by (simp add: passed_required_def passed_normal_def)
next
  case (Cons rule rest)
  from Cons.prems obtain result st1 results1 where
    cb: "rule_callback get_fn toString_fn s st rule index = Inr (result, st1)"
    and mr: "map_rules get_fn toString_fn s rest (index + 1) st1 = Inr (results1, st')"
    and res: "results = result # results1"
    by (auto split: sum.splits prod.splits)
  note c = rule_callback_counters [OF cb]
  note ih = Cons.IH [OF mr]
  show ?case
    using c ih unfolding res by (auto simp: passed_required_def passed_normal_def)
qed

lemma requiredTotal_of_count_aux:
  "foldl (\<lambda>total rule. total + (if truthy (js_index rule ''required'') then 1 else 0)) n rs
     = n + count_required rs"
  by (induction rs arbitrary: n) (auto simp: count_required_def)

lemma requiredTotal_of_count: "requiredTotal_of rs = count_required rs"
  by (simp add: requiredTotal_of_def requiredTotal_of_count_aux)

lemma conclude_outcome:
  "requiredPassed st = passed_required rs results \<Longrightarrow>
   normalPassed st = passed_normal rs results \<Longrightarrow>
   outcome (conclude s rs st) = JBool (spec_outcome (satisfy s) rs results)"
  by (cases "satisfy s")
     (auto simp: conclude_def Let_def spec_outcome_def requiredTotal_of_count
        requiredSatisfied_of_def normalSatisfied_of_def)

lemma checkConditions_with_outcome:
  assumes "rules s = JArr rs"
    and "checkConditions_with get_fn toString_fn (Some s) reference = Inr v"
  shows "\<exists>results st.
      map_rules get_fn toString_fn s rs 0 (initial_state reference) = Inr (results, st)
      \<and> length results = length rs
      \<and> outcome v = JBool (spec_outcome (satisfy s) rs results)"
proof -
  from assms obtain results st where
    mr: "map_rules get_fn toString_fn s rs 0 (initial_state reference) = Inr (results, st)"
    and v: "v = conclude s rs st"
    by (auto simp: checkConditions_with_def split: sum.splits prod.splits)
  from map_rules_counters [OF mr] have len: "length results = length rs"
    and rp: "requiredPassed st = passed_required rs results"
    and np: "normalPassed st = passed_normal rs results"
    by (simp_all add: initial_state_def)
  from conclude_outcome [OF rp np] mr len show ?thesis unfolding v by blast
qed

lemma checkConditions_with_error:
  assumes "rules s = JArr rs"
    and "checkConditions_with get_fn toString_fn (Some s) reference = Inl e"
  shows "map_rules get_fn toString_fn s rs 0 (initial_state reference) = Inl e"
  using assms by (auto simp: checkConditions_with_def split: sum.splits prod.splits)

lemma checkConditions_with_empty:
  "rules s = JArr [] \<Longrightarrow>
   outcome_of (checkConditions_with get_fn toString_fn (Some s) reference) = Inr (JBool True)"
  by (simp add: checkConditions_with_def outcome_of_def conclude_def Let_def
        requiredTotal_of_def requiredSatisfied_of_def normalSatisfied_of_def)

lemma checkConditions_with_null:
  "(\<exists>v. checkConditions_with get_fn toString_fn settings_arg reference = Inr v \<and> outcome v = Null)
     = (case settings_arg of None \<Rightarrow> True | Some s \<Rightarrow> \<not> Array_isArray (rules s))"
  by (cases settings_arg; cases "rules (the settings_arg)")
     (auto simp: checkConditions_with_def conclude_def Let_def split: sum.splits prod.splits)

lemma checkConditions_with_shape:
  "checkConditions_with get_fn toString_fn settings_arg reference = Inr v \<Longrightarrow>
   outcome v = Null \<or> (\<exists>b. outcome v = JBool b)"
  by (auto simp: checkConditions_with_def conclude_def Let_def
        split: option.splits jsval.splits sum.splits prod.splits)

lemma outcome_of_InrD: "outcome_of r = Inr b \<Longrightarrow> \<exists>v. r = Inr v \<and> outcome v = b"
  by (cases r) (auto simp: outcome_of_def)

lemma source_files_with:
  "(check, get_fn, toString_fn) \<in> set source_files \<Longrightarrow>
   check = checkConditions_with get_fn toString_fn"
  by (auto simp: source_files_def checkConditions_def checkConditions_p0_def)

text \<open>
  Claim C1. For every settings object whose \<open>rules\<close> is an array and every reference,
  in both source files: when \<open>checkConditions\<close> returns, the rules have all been
  evaluated, with one boolean result each, and the outcome is
  \<open>normalSatisfied && requiredSatisfied\<close> as the specification defines them from the
  totals and the pass counts; when it throws, a rule threw. \<open>requiredSatisfied\<close> holds
  iff there is no required rule or all required rules passed; \<open>normalSatisfied\<close> holds
  iff there is no normal rule or, under \<open>ALL\<close>, all normal rules passed and, under any
  other policy (\<open>ANY\<close> when unset), at least one passed. An empty array gives true under
  every policy.
\<close>

theorem outcome_is_aggregate:
  "(rules s = JArr rs \<longrightarrow>
      (case checkConditions (Some s) reference of
         Inl e \<Rightarrow> map_rules get toString s rs 0 (initial_state reference) = Inl e
       | Inr v \<Rightarrow>
           (\<exists>results st.
              map_rules get toString s rs 0 (initial_state reference) = Inr (results, st)
              \<and> length results = length rs
              \<and> outcome v = JBool (spec_outcome (satisfy s) rs results)))
    \<and> (case checkConditions_p0 (Some s) reference of
         Inl e \<Rightarrow> map_rules get_p0 toString_p0 s rs 0 (initial_state reference) = Inl e
       | Inr v \<Rightarrow>
           (\<exists>results st.
              map_rules get_p0 toString_p0 s rs 0 (initial_state reference) = Inr (results, st)
              \<and> length results = length rs
              \<and> outcome v = JBool (spec_outcome (satisfy s) rs results))))
   \<and> (rules s = JArr [] \<longrightarrow>
        outcome_of (checkConditions (Some s) reference) = Inr (JBool True)
      \<and> outcome_of (checkConditions_p0 (Some s) reference) = Inr (JBool True))"
proof -
  have a: "case checkConditions (Some s) reference of
         Inl e \<Rightarrow> map_rules get toString s rs 0 (initial_state reference) = Inl e
       | Inr v \<Rightarrow>
           (\<exists>results st.
              map_rules get toString s rs 0 (initial_state reference) = Inr (results, st)
              \<and> length results = length rs
              \<and> outcome v = JBool (spec_outcome (satisfy s) rs results))"
    if "rules s = JArr rs"
    using that checkConditions_with_outcome [of s rs get toString reference]
      checkConditions_with_error [of s rs get toString reference]
    unfolding checkConditions_def by (cases "checkConditions_with get toString (Some s) reference") simp_all
  have b: "case checkConditions_p0 (Some s) reference of
         Inl e \<Rightarrow> map_rules get_p0 toString_p0 s rs 0 (initial_state reference) = Inl e
       | Inr v \<Rightarrow>
           (\<exists>results st.
              map_rules get_p0 toString_p0 s rs 0 (initial_state reference) = Inr (results, st)
              \<and> length results = length rs
              \<and> outcome v = JBool (spec_outcome (satisfy s) rs results))"
    if "rules s = JArr rs"
    using that checkConditions_with_outcome [of s rs get_p0 toString_p0 reference]
      checkConditions_with_error [of s rs get_p0 toString_p0 reference]
    unfolding checkConditions_p0_def
    by (cases "checkConditions_with get_p0 toString_p0 (Some s) reference") simp_all
  have c: "outcome_of (checkConditions (Some s) reference) = Inr (JBool True)
      \<and> outcome_of (checkConditions_p0 (Some s) reference) = Inr (JBool True)"
    if "rules s = JArr []"
    using that by (simp add: checkConditions_def checkConditions_p0_def checkConditions_with_empty)
  from a b c show ?thesis by blast
qed

theorem outcome_is_aggregate_witness:
  "rules (aggregation_settings (JStr ''ANY'')) = JArr aggregation_rules
   \<and> outcome_of (checkConditions (Some (aggregation_settings (JStr ''ANY''))) aggregation_reference)
       = Inr (JBool True)
   \<and> (\<exists>results st.
         map_rules get toString (aggregation_settings (JStr ''ANY'')) aggregation_rules 0
           (initial_state aggregation_reference) = Inr (results, st)
         \<and> length results = length aggregation_rules
         \<and> spec_outcome (JStr ''ANY'') aggregation_rules results)
   \<and> outcome_of (checkConditions (Some (aggregation_settings (JStr ''ALL''))) aggregation_reference)
       = Inr (JBool False)
   \<and> rules (plain_settings []) = JArr []
   \<and> outcome_of (checkConditions (Some (plain_settings [])) aggregation_reference) = Inr (JBool True)"
proof -
  have r: "rules (aggregation_settings (JStr ''ANY'')) = JArr aggregation_rules"
    by (simp add: aggregation_settings_def plain_settings_def)
  have sat: "satisfy (aggregation_settings (JStr ''ANY'')) = JStr ''ANY''"
    by (simp add: aggregation_settings_def plain_settings_def)
  have e1: "outcome_of (checkConditions (Some (aggregation_settings (JStr ''ANY''))) aggregation_reference)
       = Inr (JBool True)"
    by code_simp
  have e2: "outcome_of (checkConditions (Some (aggregation_settings (JStr ''ALL''))) aggregation_reference)
       = Inr (JBool False)"
    by code_simp
  have r0: "rules (plain_settings []) = JArr []"
    by (simp add: plain_settings_def)
  from outcome_of_InrD [OF e1] obtain v where
    v: "checkConditions (Some (aggregation_settings (JStr ''ANY''))) aggregation_reference = Inr v"
    and o: "outcome v = JBool True" by blast
  have e3: "\<exists>results st.
         map_rules get toString (aggregation_settings (JStr ''ANY'')) aggregation_rules 0
           (initial_state aggregation_reference) = Inr (results, st)
         \<and> length results = length aggregation_rules
         \<and> spec_outcome (JStr ''ANY'') aggregation_rules results"
    using outcome_is_aggregate
      [of "aggregation_settings (JStr ''ANY'')" aggregation_rules aggregation_reference] r
    by (simp add: v o sat)
  have e4: "outcome_of (checkConditions (Some (plain_settings [])) aggregation_reference) = Inr (JBool True)"
    using outcome_is_aggregate [of "plain_settings []" "[]" aggregation_reference] r0 by blast
  from r e1 e3 e2 r0 e4 show ?thesis by blast
qed

text \<open>
  Claim C6. In both source files \<open>checkConditions\<close> returns \<open>null\<close> exactly when the
  settings are absent or \<open>settings.rules\<close> is not an array, and every value it returns
  is \<open>null\<close> or a boolean.
\<close>

theorem null_only_without_rules:
  "((\<exists>v. checkConditions settings_arg reference = Inr v \<and> outcome v = Null)
      = (case settings_arg of None \<Rightarrow> True | Some s \<Rightarrow> \<not> Array_isArray (rules s)))
   \<and> ((\<exists>v. checkConditions_p0 settings_arg reference = Inr v \<and> outcome v = Null)
      = (case settings_arg of None \<Rightarrow> True | Some s \<Rightarrow> \<not> Array_isArray (rules s)))
   \<and> (\<forall>v. checkConditions settings_arg reference = Inr v \<longrightarrow>
          outcome v = Null \<or> (\<exists>b. outcome v = JBool b))
   \<and> (\<forall>v. checkConditions_p0 settings_arg reference = Inr v \<longrightarrow>
          outcome v = Null \<or> (\<exists>b. outcome v = JBool b))"
  unfolding checkConditions_def checkConditions_p0_def
  using checkConditions_with_null [of get toString settings_arg reference]
    checkConditions_with_null [of get_p0 toString_p0 settings_arg reference]
    checkConditions_with_shape [of get toString settings_arg reference]
    checkConditions_with_shape [of get_p0 toString_p0 settings_arg reference]
  by blast

theorem null_only_without_rules_witness:
  "outcome_of (checkConditions None aggregation_reference) = Inr Null
   \<and> outcome_of (checkConditions (Some ((plain_settings [])\<lparr>rules := JStr ''none''\<rparr>))
        aggregation_reference) = Inr Null
   \<and> outcome_of (checkConditions (Some (plain_settings [])) aggregation_reference) = Inr (JBool True)
   \<and> \<not> (\<exists>v. checkConditions (Some (plain_settings [])) aggregation_reference = Inr v
           \<and> outcome v = Null)"
proof -
  have a: "outcome_of (checkConditions None aggregation_reference) = Inr Null"
    by code_simp
  have b: "outcome_of (checkConditions (Some ((plain_settings [])\<lparr>rules := JStr ''none''\<rparr>))
        aggregation_reference) = Inr Null"
    by code_simp
  have c: "outcome_of (checkConditions (Some (plain_settings [])) aggregation_reference) = Inr (JBool True)"
    by code_simp
  have d: "\<not> (\<exists>v. checkConditions (Some (plain_settings [])) aggregation_reference = Inr v
           \<and> outcome v = Null)"
    using null_only_without_rules [of "Some (plain_settings [])" aggregation_reference]
    by (simp add: plain_settings_def)
  from a b c d show ?thesis by blast
qed

lemma crosses_rule_is_object: "js_index rule ''op'' = JStr ''crosses'' \<Longrightarrow> \<not> nullish rule"
  by (cases rule) auto

text \<open>The ordering of numbers under \<open>>\<close> and \<open><=\<close>: that of the rationals, and false
  when an operand is \<open>NaN\<close>.\<close>

lemma num_compare_pins:
  "js_gt (JNum (Fin t)) (JNum (Fin l)) = (l < t)
   \<and> js_lte (JNum (Fin t)) (JNum (Fin v)) = (t \<le> v)
   \<and> \<not> js_gt (JNum (Fin t)) (JNum NaN) \<and> \<not> js_gt (JNum NaN) (JNum (Fin l))
   \<and> \<not> js_lte (JNum (Fin t)) (JNum NaN) \<and> \<not> js_lte (JNum NaN) (JNum (Fin v))"
  by (auto simp: js_gt_def js_lte_def js_compare_def)

text \<open>
  Claim C4, where it fails. A rule with op \<open>crosses\<close> and no property, evaluated
  without \<open>previousValueFn\<close>, throws the authoring error of the missing property, in
  both source files, and not the configuration error; with \<open>previousValueFn\<close> it
  throws the same error and has no result. A rule with op \<open>crosses\<close> whose wildcard
  collection is missing throws a \<open>TypeError\<close> before the operator is looked at.
\<close>

theorem crosses_needs_property_counterexample:
  "error_of (checkConditions (Some (plain_settings [crosses_without_property]))
       aggregation_reference)
     = Some (JsError ''Property not specified for rule 0'' (Some crosses_without_property))
   \<and> error_of (checkConditions_p0 (Some (plain_settings [crosses_without_property]))
       aggregation_reference)
     = Some (JsError ''Property not specified for rule 0'' (Some crosses_without_property))
   \<and> JsError ''Property not specified for rule 0'' (Some crosses_without_property)
     \<noteq> JsError no_previous_value_message None
   \<and> error_of (checkConditions (Some (crossing_settings [crosses_without_property]))
       aggregation_reference)
     = Some (JsError ''Property not specified for rule 0'' (Some crosses_without_property))
   \<and> error_of (checkConditions
       (Some (plain_settings [rule_of ''items[].x'' ''crosses'' (JNum (Fin 7))])) (JObj []))
     = Some (JsTypeError ''Cannot read properties of undefined (reading map)'')"
  by code_simp

text \<open>
  Claim C4, amended. For every rule with op \<open>crosses\<close> whose property is truthy and
  whose value \<open>val\<close> resolves without an exception, with either resolver, and with
  \<open>targetValue\<close> the rule's value after the transform (the rule's value itself
  without \<open>transformValueFn\<close>): if \<open>settings.previousValueFn\<close> is a function, the rule
  is evaluated to the result \<open>targetValue > lastValue && targetValue <= val\<close>, where
  \<open>lastValue\<close> is what the function returns for the reference and the rule's
  property, and leaves the state \<open>crosses_state\<close>; if it is absent, the evaluation of
  the rule throws the configuration error. On numbers \<open>>\<close> and \<open><=\<close> are the strict
  and the non-strict order, and both are false when an operand is \<open>NaN\<close>.
\<close>

theorem crosses_is_upward_crossing:
  "(js_index rule ''op'' = JStr ''crosses''
    \<and> truthy (js_index rule ''property'')
    \<and> resolve_value get_fn (ref_state st) (js_index rule ''property'') = Inr val
    \<and> transform_target s (js_index rule ''value'') (ref_state st) (js_index rule ''property'')
        = (targetValue, reference')
    \<longrightarrow>
    (case previousValueFn s of
       Some f \<Rightarrow>
         (case f reference' (js_index rule ''property'') of
            (lastValue, reference'') \<Rightarrow>
              rule_callback get_fn toString_fn s st rule index =
                Inr (js_gt targetValue lastValue \<and> js_lte targetValue val,
                     crosses_state index rule lastValue val targetValue reference''
                       (js_gt targetValue lastValue \<and> js_lte targetValue val) st))
     | None \<Rightarrow>
         rule_callback get_fn toString_fn s st rule index
           = Inl (JsError no_previous_value_message None))
    \<and> (transformValueFn s = None \<longrightarrow>
          targetValue = js_index rule ''value'' \<and> reference' = ref_state st))
   \<and> js_gt (JNum (Fin t)) (JNum (Fin l)) = (l < t)
   \<and> js_lte (JNum (Fin t)) (JNum (Fin v)) = (t \<le> v)
   \<and> \<not> js_gt (JNum (Fin t)) (JNum NaN) \<and> \<not> js_gt (JNum NaN) (JNum (Fin l))
   \<and> \<not> js_lte (JNum (Fin t)) (JNum NaN) \<and> \<not> js_lte (JNum NaN) (JNum (Fin v))"
proof -
  have main: "(case previousValueFn s of
       Some f \<Rightarrow>
         (case f reference' (js_index rule ''property'') of
            (lastValue, reference'') \<Rightarrow>
              rule_callback get_fn toString_fn s st rule index =
                Inr (js_gt targetValue lastValue \<and> js_lte targetValue val,
                     crosses_state index rule lastValue val targetValue reference''
                       (js_gt targetValue lastValue \<and> js_lte targetValue val) st))
     | None \<Rightarrow>
         rule_callback get_fn toString_fn s st rule index
           = Inl (JsError no_previous_value_message None))
    \<and> (transformValueFn s = None \<longrightarrow>
          targetValue = js_index rule ''value'' \<and> reference' = ref_state st)"
    if a: "js_index rule ''op'' = JStr ''crosses''"
      "truthy (js_index rule ''property'')"
      "resolve_value get_fn (ref_state st) (js_index rule ''property'') = Inr val"
      "transform_target s (js_index rule ''value'') (ref_state st) (js_index rule ''property'')
        = (targetValue, reference')"
  proof -
    note n = crosses_rule_is_object [OF a(1)]
    have rc: "rule_callback get_fn toString_fn s st rule index =
       (case op_crosses s index (js_index rule ''property'') val targetValue
               (st\<lparr>ref_state := reference'\<rparr>) of
          Inl e \<Rightarrow> Inl e
        | Inr (result, st') \<Rightarrow>
            Inr (result, record_result index rule (js_index rule ''property'') val targetValue
                   result st'))"
      using n a by (simp add: rule_callback_def switch_op_def)
    have p1: "case previousValueFn s of
       Some f \<Rightarrow>
         (case f reference' (js_index rule ''property'') of
            (lastValue, reference'') \<Rightarrow>
              rule_callback get_fn toString_fn s st rule index =
                Inr (js_gt targetValue lastValue \<and> js_lte targetValue val,
                     crosses_state index rule lastValue val targetValue reference''
                       (js_gt targetValue lastValue \<and> js_lte targetValue val) st))
     | None \<Rightarrow>
         rule_callback get_fn toString_fn s st rule index
           = Inl (JsError no_previous_value_message None)"
      unfolding rc
      by (auto simp: op_crosses_def crosses_state_def Let_def split: option.splits prod.splits)
    have p2: "transformValueFn s = None \<longrightarrow>
          targetValue = js_index rule ''value'' \<and> reference' = ref_state st"
      using a(4) by (auto simp: transform_target_def)
    from p1 p2 show ?thesis by blast
  qed
  from main num_compare_pins [of t l v] show ?thesis by blast
qed

theorem crosses_is_upward_crossing_witness:
  "(\<exists>st'. rule_callback get toString (crossing_settings []) (initial_state aggregation_reference)
            (rule_of ''a'' ''crosses'' (JNum (Fin 7))) 0 = Inr (True, st'))
   \<and> (\<exists>st'. rule_callback get toString (crossing_settings []) (initial_state aggregation_reference)
            (rule_of ''a'' ''crosses'' (JNum (Fin 12))) 0 = Inr (False, st'))
   \<and> (\<exists>st'. rule_callback get toString (crossing_settings []) (initial_state aggregation_reference)
            (rule_of ''a'' ''crosses'' (JNum (Fin 3))) 0 = Inr (False, st'))
   \<and> (\<exists>st'. rule_callback get toString (crossing_settings []) (initial_state aggregation_reference)
            (rule_of ''a'' ''crosses'' (JNum (Fin 5))) 0 = Inr (False, st'))
   \<and> (\<exists>st'. rule_callback get toString (crossing_settings []) (initial_state aggregation_reference)
            (rule_of ''a'' ''crosses'' (JNum (Fin 10))) 0 = Inr (True, st'))
   \<and> (\<exists>st'. rule_callback get_p0 toString_p0 (crossing_settings [])
            (initial_state fraction_reference)
            (rule_of ''a'' ''crosses'' (JNum (Fin 7))) 0 = Inr (True, st'))
   \<and> (\<exists>st'. rule_callback get_p0 toString_p0 (crossing_settings [])
            (initial_state fraction_reference)
            (rule_of ''a'' ''crosses'' (JNum (Fin 8))) 0 = Inr (False, st'))
   \<and> rule_callback get toString (plain_settings []) (initial_state aggregation_reference)
        (rule_of ''a'' ''crosses'' (JNum (Fin 7))) 0 = Inl (JsError no_previous_value_message None)
   \<and> outcome_of (checkConditions (Some (crossing_settings [rule_of ''a'' ''crosses'' (JNum (Fin 7))]))
        aggregation_reference) = Inr (JBool True)
   \<and> outcome_of (checkConditions_p0 (Some (crossing_settings [rule_of ''a'' ''crosses'' (JNum (Fin 3))]))
        aggregation_reference) = Inr (JBool False)
   \<and> error_of (checkConditions (Some (plain_settings [rule_of ''a'' ''crosses'' (JNum (Fin 7))]))
        aggregation_reference) = Some (JsError no_previous_value_message None)"
proof -
  let ?st = "initial_state aggregation_reference"
  let ?sf = "initial_state fraction_reference"
  have h: "js_index (rule_of ''a'' ''crosses'' w) ''op'' = JStr ''crosses''"
    "truthy (js_index (rule_of ''a'' ''crosses'' w) ''property'')"
    "js_index (rule_of ''a'' ''crosses'' w) ''property'' = JStr ''a''"
    "js_index (rule_of ''a'' ''crosses'' w) ''value'' = w" for w
    by (simp_all add: rule_of_def)
  have rv: "resolve_value get (ref_state ?st) (JStr ''a'') = Inr (JNum (Fin 10))"
    by code_simp
  have rf: "resolve_value get_p0 (ref_state ?sf) (JStr ''a'') = Inr (JStr ''7.5'')"
    by code_simp
  have tt: "transform_target (crossing_settings []) w (ref_state ?st) (JStr ''a'')
      = (w, aggregation_reference)"
    "transform_target (crossing_settings []) w (ref_state ?sf) (JStr ''a'')
      = (w, fraction_reference)"
    "transform_target (plain_settings []) w (ref_state ?st) (JStr ''a'')
      = (w, aggregation_reference)" for w
    by (simp_all add: transform_target_def crossing_settings_def plain_settings_def
          initial_state_def)
  have p: "previousValueFn (crossing_settings []) = Some (\<lambda>reference property. (JNum (Fin 5), reference))"
    "previousValueFn (plain_settings []) = None"
    by (simp_all add: crossing_settings_def plain_settings_def)
  have num: "\<exists>st'. rule_callback get toString (crossing_settings []) ?st
            (rule_of ''a'' ''crosses'' (JNum (Fin w))) 0 = Inr (5 < w \<and> w \<le> 10, st')" for w
    using crosses_is_upward_crossing
      [of "rule_of ''a'' ''crosses'' (JNum (Fin w))" get ?st "JNum (Fin 10)" "crossing_settings []"
          "JNum (Fin w)" aggregation_reference toString 0 w 5 10]
      h rv tt by (simp add: p)
  have f7: "js_gt (JNum (Fin 7)) (JNum (Fin 5)) \<and> js_lte (JNum (Fin 7)) (JStr ''7.5'')"
    by code_simp
  have f8: "\<not> js_lte (JNum (Fin 8)) (JStr ''7.5'')"
    by code_simp
  have frac: "\<exists>st'. rule_callback get_p0 toString_p0 (crossing_settings []) ?sf
            (rule_of ''a'' ''crosses'' (JNum (Fin w))) 0
      = Inr (js_gt (JNum (Fin w)) (JNum (Fin 5)) \<and> js_lte (JNum (Fin w)) (JStr ''7.5''), st')" for w
    using crosses_is_upward_crossing
      [of "rule_of ''a'' ''crosses'' (JNum (Fin w))" get_p0 ?sf "JStr ''7.5''" "crossing_settings []"
          "JNum (Fin w)" fraction_reference toString_p0 0 w 5 10]
      h rf tt by (simp add: p)
  have w3: "rule_callback get toString (plain_settings []) ?st
        (rule_of ''a'' ''crosses'' (JNum (Fin 7))) 0 = Inl (JsError no_previous_value_message None)"
    using crosses_is_upward_crossing
      [of "rule_of ''a'' ''crosses'' (JNum (Fin 7))" get ?st "JNum (Fin 10)" "plain_settings []"
          "JNum (Fin 7)" aggregation_reference toString 0 7 5 10]
      h rv tt by (simp add: p)
  have c1: "outcome_of (checkConditions
        (Some (crossing_settings [rule_of ''a'' ''crosses'' (JNum (Fin 7))]))
        aggregation_reference) = Inr (JBool True)"
    by code_simp
  have c2: "outcome_of (checkConditions_p0
        (Some (crossing_settings [rule_of ''a'' ''crosses'' (JNum (Fin 3))]))
        aggregation_reference) = Inr (JBool False)"
    by code_simp
  have c3: "error_of (checkConditions
        (Some (plain_settings [rule_of ''a'' ''crosses'' (JNum (Fin 7))]))
        aggregation_reference) = Some (JsError no_previous_value_message None)"
    by code_simp
  from num [of 7] num [of 12] num [of 3] num [of 5] num [of 10] frac [of 7] frac [of 8] f7 f8 w3
    c1 c2 c3
  show ?thesis by simp
qed














text \<open>
  Claim C8, evaluated where it fails. Two rules, \<open>eq\<close> at index 0 and \<open>crosses\<close> at
  index 1, both evaluated without an exception. The \<open>crosses\<close> case assigns its line
  to the trace instead of appending it, so the trace handed to \<open>settings.log\<close> starts
  with the lines of rule 1 and has lost the line of rule 0, in both source files;
  without the second rule the line of rule 0 is there.
\<close>

theorem crosses_overwrites_trace:
  "logged_of (checkConditions
      (Some (crossing_settings
         [rule_of ''a'' ''eq'' (JNum (Fin 10)), rule_of ''a'' ''crosses'' (JNum (Fin 7))]))
      aggregation_reference)
   = Inr (Some (''(1) a was 5 and became 10. crossed 7? true'' @ [newline]
        @ ''(1) a (10)  crosses 7? true'' @ [newline]
        @ ''Passed 2 / 2 (need ANY, pass)'' @ [newline]
        @ ''Result: PASS''))
   \<and> logged_of (checkConditions_p0
      (Some (crossing_settings
         [rule_of ''a'' ''eq'' (JNum (Fin 10)), rule_of ''a'' ''crosses'' (JNum (Fin 7))]))
      aggregation_reference)
   = Inr (Some (''(1) a was 5 and became 10. crossed 7? true'' @ [newline]
        @ ''(1) a (10)  crosses 7? true'' @ [newline]
        @ ''Passed 2 / 2 (need ANY, pass)'' @ [newline]
        @ ''Result: PASS''))
   \<and> logged_of (checkConditions
      (Some (crossing_settings [rule_of ''a'' ''eq'' (JNum (Fin 10))]))
      aggregation_reference)
   = Inr (Some (''(0) a (10)  eq 10? true'' @ [newline]
        @ ''Passed 1 / 1 (need ANY, pass)'' @ [newline]
        @ ''Result: PASS''))"
  by code_simp

lemma transform_target_keeps:
  assumes k: "callbacks_keep_reference s"
    and t: "transform_target s targetValue reference property = (t, reference')"
  shows "reference' = reference"
proof (cases "transformValueFn s")
  case None
  with t show ?thesis by (simp add: transform_target_def)
next
  case (Some f)
  with k have "snd (f targetValue reference property) = reference"
    by (simp add: callbacks_keep_reference_def)
  moreover from t Some have "f targetValue reference property = (t, reference')"
    by (simp add: transform_target_def)
  ultimately show ?thesis by simp
qed

lemma op_crosses_keeps:
  assumes k: "callbacks_keep_reference s"
    and c: "op_crosses s index property val targetValue st = Inr (result, st')"
  shows "ref_state st' = ref_state st"
proof (cases "previousValueFn s")
  case None
  with c show ?thesis by (simp add: op_crosses_def)
next
  case (Some f)
  with k have "snd (f (ref_state st) property) = ref_state st"
    by (simp add: callbacks_keep_reference_def)
  then obtain lastValue where "f (ref_state st) property = (lastValue, ref_state st)"
    by (cases "f (ref_state st) property") simp
  with c Some show ?thesis by (auto simp: op_crosses_def Let_def)
qed

lemma switch_op_keeps:
  "callbacks_keep_reference s \<Longrightarrow>
   switch_op toString_fn s index rule property val targetValue alt st = Inr (result, st') \<Longrightarrow>
   ref_state st' = ref_state st"
  using switch_op_cases op_crosses_keeps by blast

lemma record_result_keeps:
  "ref_state (record_result index rule property val targetValue result st) = ref_state st"
  by (simp add: record_result_def Let_def)

lemma rule_callback_keeps:
  assumes k: "callbacks_keep_reference s"
    and cb: "rule_callback get_fn toString_fn s st rule index = Inr (result, st')"
  shows "ref_state st' = ref_state st"
proof -
  from cb obtain val targetValue reference' st1 where
    t: "transform_target s (js_index rule ''value'') (ref_state st) (js_index rule ''property'')
          = (targetValue, reference')"
    and sw: "switch_op toString_fn s index rule (js_index rule ''property'') val targetValue
          (altComparison_of val targetValue) (st\<lparr>ref_state := reference'\<rparr>) = Inr (result, st1)"
    and st': "st' = record_result index rule (js_index rule ''property'') val targetValue result st1"
    by (auto simp: rule_callback_def split: if_splits sum.splits prod.splits)
  from transform_target_keeps [OF k t] have "reference' = ref_state st" .
  moreover from switch_op_keeps [OF k sw] have "ref_state st1 = reference'" by simp
  ultimately show ?thesis unfolding st' by (simp add: record_result_keeps)
qed

lemma map_rules_keeps:
  "callbacks_keep_reference s \<Longrightarrow>
   map_rules get_fn toString_fn s rs index st = Inr (results, st') \<Longrightarrow>
   ref_state st' = ref_state st"
proof (induction rs arbitrary: index st results)
  case Nil
  then show ?case by simp
next
  case (Cons rule rest)
  from Cons.prems(2) obtain result st1 results1 where
    cb: "rule_callback get_fn toString_fn s st rule index = Inr (result, st1)"
    and mr: "map_rules get_fn toString_fn s rest (index + 1) st1 = Inr (results1, st')"
    by (auto split: sum.splits prod.splits)
  from rule_callback_keeps [OF Cons.prems(1) cb] Cons.IH [OF Cons.prems(1) mr]
  show ?case by simp
qed

lemma conclude_keeps:
  "callbacks_keep_reference s \<Longrightarrow> ref_after (conclude s rs st) = ref_state st"
  by (auto simp: callbacks_keep_reference_def conclude_def Let_def split: option.splits)

lemma checkConditions_with_keeps:
  assumes "case settings_arg of Some s \<Rightarrow> callbacks_keep_reference s | None \<Rightarrow> True"
    and "checkConditions_with get_fn toString_fn settings_arg reference = Inr v"
  shows "ref_after v = reference"
proof (cases settings_arg)
  case None
  with assms(2) show ?thesis by (auto simp: checkConditions_with_def)
next
  case (Some s)
  with assms(1) have k: "callbacks_keep_reference s" by simp
  show ?thesis
  proof (cases "Array_isArray (rules s)")
    case False
    with assms(2) Some show ?thesis
      by (cases "rules s") (auto simp: checkConditions_with_def)
  next
    case True
    then obtain rs where rs: "rules s = JArr rs" by (cases "rules s") auto
    with assms(2) Some obtain results st where
      mr: "map_rules get_fn toString_fn s rs 0 (initial_state reference) = Inr (results, st)"
      and v: "v = conclude s rs st"
      by (auto simp: checkConditions_with_def split: sum.splits prod.splits)
    from map_rules_keeps [OF k mr] have "ref_state st = reference"
      by (simp add: initial_state_def)
    then show ?thesis unfolding v by (simp add: conclude_keeps [OF k])
  qed
qed

text \<open>
  Claim C9. In both source files, for settings whose callbacks, when present, leave
  the reference as they find it (and for absent settings): the reference after a call
  of \<open>checkConditions\<close> that returns is the reference before it, and so is the
  reference after any number of rules evaluated without an exception, which is the
  one a throwing rule meets. The evaluator itself only reads the reference.
\<close>

theorem reference_is_unchanged:
  "(check, get_fn, toString_fn) \<in> set source_files
   \<and> (case settings_arg of Some s \<Rightarrow> callbacks_keep_reference s | None \<Rightarrow> True) \<longrightarrow>
     (\<forall>v. check settings_arg reference = Inr v \<longrightarrow> ref_after v = reference)
   \<and> (\<forall>s pre post results st.
         settings_arg = Some s \<and> rules s = JArr (pre @ post)
         \<and> map_rules get_fn toString_fn s pre 0 (initial_state reference) = Inr (results, st)
         \<longrightarrow> ref_state st = reference)"
proof (intro impI, elim conjE)
  assume sf: "(check, get_fn, toString_fn) \<in> set source_files"
    and k: "case settings_arg of Some s \<Rightarrow> callbacks_keep_reference s | None \<Rightarrow> True"
  note c = source_files_with [OF sf]
  have a: "\<forall>v. check settings_arg reference = Inr v \<longrightarrow> ref_after v = reference"
    unfolding c using checkConditions_with_keeps [OF k] by blast
  have b: "ref_state st = reference"
    if "settings_arg = Some s"
      "map_rules get_fn toString_fn s pre 0 (initial_state reference) = Inr (results, st)"
    for s pre results st
  proof -
    from that(1) k have "callbacks_keep_reference s" by simp
    from map_rules_keeps [OF this that(2)] show ?thesis by (simp add: initial_state_def)
  qed
  from a b show "(\<forall>v. check settings_arg reference = Inr v \<longrightarrow> ref_after v = reference)
   \<and> (\<forall>s pre post results st.
         settings_arg = Some s \<and> rules s = JArr (pre @ post)
         \<and> map_rules get_fn toString_fn s pre 0 (initial_state reference) = Inr (results, st)
         \<longrightarrow> ref_state st = reference)"
    by blast
qed

theorem reference_is_unchanged_witness:
  "callbacks_keep_reference (pure_callbacks [rule_of ''items[].x'' ''some'' (JNum (Fin 1)),
       rule_of ''items.length'' ''crosses'' (JNum (Fin 2))])
   \<and> outcome_of (checkConditions (Some (pure_callbacks [rule_of ''items[].x'' ''some'' (JNum (Fin 1)),
       rule_of ''items.length'' ''crosses'' (JNum (Fin 2))])) collection_reference)
       = Inr (JBool False)
   \<and> map_sum id ref_after (checkConditions (Some (pure_callbacks
       [rule_of ''items[].x'' ''some'' (JNum (Fin 1)),
        rule_of ''items.length'' ''crosses'' (JNum (Fin 2))])) collection_reference)
       = Inr collection_reference"
proof -
  let ?s = "pure_callbacks [rule_of ''items[].x'' ''some'' (JNum (Fin 1)),
       rule_of ''items.length'' ''crosses'' (JNum (Fin 2))]"
  have sf: "(checkConditions, get, toString) \<in> set source_files"
    by (simp add: source_files_def)
  have k: "callbacks_keep_reference ?s"
    by (simp add: callbacks_keep_reference_def pure_callbacks_def)
  have o: "outcome_of (checkConditions (Some ?s) collection_reference) = Inr (JBool False)"
    by code_simp
  from outcome_of_InrD [OF o] obtain v where
    v: "checkConditions (Some ?s) collection_reference = Inr v" by blast
  have "ref_after v = collection_reference"
    using reference_is_unchanged [of checkConditions get toString "Some ?s" collection_reference]
      sf k v by simp
  with v have "map_sum id ref_after (checkConditions (Some ?s) collection_reference)
       = Inr collection_reference" by simp
  with k o show ?thesis by blast
qed

end
